theory Spec2Isabelle
  imports Complex_Main
begin

section \<open>Conventions\<close>

text \<open>
  The trading engine computes with Python \<open>Decimal\<close> values (prices, quantities,
  balances) and with floats (analyzer scores). Outside \<open>format_quantity\<close>, where the
  digits of a \<open>Decimal\<close> matter, both are taken as exact rational numbers: the sums, products
  and quotients of the source are the ones of \<^typ>\<open>rat\<close>. Every exception the modelled
  code can raise is a value of \<open>py_error\<close>, returned as \<open>Inl\<close>.
\<close>

datatype py_error =
    TypeError
  | ZeroDivisionError
  | InvalidOperation
  | DoesNotExist
  | IntegrityError
  | BinanceAPIException
  | RedisError
  | DatabaseError
  | DataError

section \<open>VPA analyzer (\<open>trading/services/vpa_analyzer.py\<close>)\<close>

datatype VPAPattern =
    CLIMAX_HIGH
  | CLIMAX_LOW
  | NO_DEMAND
  | NO_SUPPLY
  | STOPPING_VOLUME
  | TEST
  | UPTHRUST
  | SPRING
  | EFFORT_VS_RESULT
  | NEUTRAL

datatype TrendDirection = BULLISH | BEARISH | NEUTRAL

definition ULTRA_HIGH_VOLUME :: rat where "ULTRA_HIGH_VOLUME = 5 / 2"
definition HIGH_VOLUME :: rat where "HIGH_VOLUME = 3 / 2"
definition LOW_VOLUME :: rat where "LOW_VOLUME = - (1 / 2)"
definition ULTRA_LOW_VOLUME :: rat where "ULTRA_LOW_VOLUME = - (3 / 2)"
definition WIDE_SPREAD :: rat where "WIDE_SPREAD = 3 / 2"
definition NARROW_SPREAD :: rat where "NARROW_SPREAD = 1 / 2"
definition UPPER_THIRD :: rat where "UPPER_THIRD = 67 / 100"
definition LOWER_THIRD :: rat where "LOWER_THIRD = 33 / 100"

text \<open>\<open>VPAAnalyzer._identify_pattern\<close>: the first matching test wins, in the source's order.\<close>

definition identify_pattern ::
  "rat \<Rightarrow> rat \<Rightarrow> rat \<Rightarrow> bool \<Rightarrow> TrendDirection \<Rightarrow> VPAPattern" where
  "identify_pattern volume_anomaly spread_ratio close_position is_bullish trend =
     (if volume_anomaly \<ge> ULTRA_HIGH_VOLUME \<and> spread_ratio \<ge> WIDE_SPREAD
         \<and> is_bullish \<and> trend = TrendDirection.BULLISH
      then CLIMAX_HIGH
      else if volume_anomaly \<ge> ULTRA_HIGH_VOLUME \<and> spread_ratio \<ge> WIDE_SPREAD
         \<and> \<not> is_bullish \<and> trend = TrendDirection.BEARISH
      then CLIMAX_LOW
      else if volume_anomaly \<ge> HIGH_VOLUME \<and> spread_ratio \<le> NARROW_SPREAD
      then STOPPING_VOLUME
      else if volume_anomaly \<ge> HIGH_VOLUME \<and> spread_ratio < 3 / 4
      then EFFORT_VS_RESULT
      else if volume_anomaly \<le> LOW_VOLUME \<and> is_bullish \<and> close_position \<ge> UPPER_THIRD
      then NO_DEMAND
      else if volume_anomaly \<le> LOW_VOLUME \<and> \<not> is_bullish \<and> close_position \<le> LOWER_THIRD
      then NO_SUPPLY
      else if volume_anomaly \<le> ULTRA_LOW_VOLUME
      then TEST
      else if spread_ratio \<ge> WIDE_SPREAD \<and> is_bullish \<and> close_position \<le> LOWER_THIRD
         \<and> volume_anomaly \<ge> 0
      then UPTHRUST
      else if spread_ratio \<ge> WIDE_SPREAD \<and> \<not> is_bullish \<and> close_position \<ge> UPPER_THIRD
         \<and> volume_anomaly \<ge> 0
      then SPRING
      else VPAPattern.NEUTRAL)"

fun pattern_weights :: "VPAPattern \<Rightarrow> rat" where
  "pattern_weights CLIMAX_HIGH = 9 / 10"
| "pattern_weights CLIMAX_LOW = 9 / 10"
| "pattern_weights STOPPING_VOLUME = 8 / 10"
| "pattern_weights UPTHRUST = 85 / 100"
| "pattern_weights SPRING = 85 / 100"
| "pattern_weights NO_DEMAND = 7 / 10"
| "pattern_weights NO_SUPPLY = 7 / 10"
| "pattern_weights TEST = 6 / 10"
| "pattern_weights EFFORT_VS_RESULT = 65 / 100"
| "pattern_weights VPAPattern.NEUTRAL = 0"

text \<open>\<open>VPAAnalyzer._calculate_strength\<close> (its \<open>spread_ratio\<close> argument is not used).\<close>

definition calculate_strength :: "VPAPattern \<Rightarrow> rat \<Rightarrow> rat \<Rightarrow> rat" where
  "calculate_strength pattern volume_anomaly spread_ratio =
     (if pattern = VPAPattern.NEUTRAL then 0
      else
        let base_strength = pattern_weights pattern;
            volume_factor = min (\<bar>volume_anomaly\<bar> / 3) 1;
            strength = base_strength * (7 / 10 + 3 / 10 * volume_factor)
        in min (max strength 0) 1)"

definition reversal_patterns :: "VPAPattern list" where
  "reversal_patterns = [CLIMAX_HIGH, CLIMAX_LOW, UPTHRUST, SPRING, STOPPING_VOLUME]"

text \<open>
  \<open>VPAAnalyzer._is_valid_signal\<close>, branch by branch. The two tests on the continuation
  patterns return \<open>True\<close>, and so does the line after them.
\<close>

definition VPAAnalyzer_is_valid_signal :: "VPAPattern \<Rightarrow> rat \<Rightarrow> TrendDirection \<Rightarrow> bool" where
  "VPAAnalyzer_is_valid_signal pattern strength trend =
     (if pattern = VPAPattern.NEUTRAL then False
      else if strength < 1 / 2 then False
      else if pattern \<in> set reversal_patterns then True
      else if pattern = NO_DEMAND \<and> trend \<noteq> TrendDirection.BULLISH then True
      else if pattern = NO_SUPPLY \<and> trend \<noteq> TrendDirection.BEARISH then True
      else True)"

text \<open>
  The part of \<open>VPAAnalyzer.analyze\<close> after the window statistics: from the three metrics,
  the colour of the bar and the trend to the pattern, its strength and the validity flag.
\<close>

record VPASignal =
  pattern :: VPAPattern
  strength :: rat
  is_valid_signal :: bool

definition analyze_metrics ::
  "rat \<Rightarrow> rat \<Rightarrow> rat \<Rightarrow> bool \<Rightarrow> TrendDirection \<Rightarrow> VPASignal" where
  "analyze_metrics volume_anomaly spread_ratio close_position is_bullish trend =
     (let p = identify_pattern volume_anomaly spread_ratio close_position is_bullish trend;
          s = calculate_strength p volume_anomaly spread_ratio
      in \<lparr>pattern = p, strength = s, is_valid_signal = VPAAnalyzer_is_valid_signal p s trend\<rparr>)"

section \<open>Exchange gateway (\<open>trading/services/binance_client.py\<close>)\<close>

text \<open>
  A Python \<open>Decimal\<close>: a signed coefficient and an exponent, standing for
  \<open>coefficient * 10 ^ exponent\<close>. \<open>Decimal('0.0016')\<close> is \<open>\<lparr>coefficient = 16, exponent = -4\<rparr>\<close>.
\<close>

record Decimal =
  coefficient :: int
  exponent :: int

definition dec_value :: "Decimal \<Rightarrow> rat" where
  "dec_value d =
     (if 0 \<le> exponent d then of_int (coefficient d * 10 ^ nat (exponent d))
      else of_int (coefficient d) / of_int (10 ^ nat (- exponent d)))"

text \<open>
  \<open>Decimal.quantize\<close> to the exponent \<open>-n\<close> under the default context, which nothing in the
  repository changes: rounding is \<open>ROUND_HALF_EVEN\<close>, the precision is 28 digits, and a
  result that needs more digits raises \<open>InvalidOperation\<close>.
\<close>

definition quantize :: "Decimal \<Rightarrow> nat \<Rightarrow> py_error + Decimal" where
  "quantize d n =
     (let c = coefficient d; e = exponent d;
          c' = (if - int n \<le> e then c * 10 ^ nat (e + int n)
                else
                  let m = 10 ^ nat (- int n - e);
                      q = \<bar>c\<bar> div m;
                      r = \<bar>c\<bar> mod m;
                      rounded = (if 2 * r > m \<or> (2 * r = m \<and> odd q) then q + 1 else q)
                  in sgn c * rounded)
      in if \<bar>c'\<bar> \<ge> 10 ^ 28 then Inl InvalidOperation
         else Inr \<lparr>coefficient = c', exponent = - int n\<rparr>)"

record symbol_info =
  min_qty :: "Decimal option"
  step_size :: "Decimal option"
  tick_size :: "Decimal option"
  min_notional :: "Decimal option"

text \<open>
  \<open>BinanceClient.format_quantity\<close>. The exchange lookup \<open>get_symbol_info\<close> is a parameter;
  its failure propagates. \<open>if step_size\<close> is false for \<open>None\<close> and for a zero step.
\<close>

definition format_quantity ::
  "(string \<Rightarrow> py_error + symbol_info) \<Rightarrow> string \<Rightarrow> Decimal \<Rightarrow> py_error + Decimal" where
  "format_quantity get_symbol_info symbol quantity =
     (case get_symbol_info symbol of
        Inl err \<Rightarrow> Inl err
      | Inr info \<Rightarrow>
          (case step_size info of
             None \<Rightarrow> Inr quantity
           | Some step \<Rightarrow>
               if coefficient step = 0 then Inr quantity
               else
                 let precision = nat \<bar>exponent step\<bar>
                 in quantize quantity precision))"

text \<open>A symbol table with one symbol, whose lot step is \<open>Decimal('0.001')\<close>.\<close>

definition btc_info :: "string \<Rightarrow> py_error + symbol_info" where
  "btc_info symbol =
     (if symbol = ''BTCUSDT''
      then Inr \<lparr>min_qty = Some \<lparr>coefficient = 1, exponent = -3\<rparr>,
                step_size = Some \<lparr>coefficient = 1, exponent = -3\<rparr>,
                tick_size = Some \<lparr>coefficient = 1, exponent = -2\<rparr>,
                min_notional = Some \<lparr>coefficient = 10, exponent = 0\<rparr>\<rparr>
      else Inl BinanceAPIException)"

section \<open>3-D analyzer (\<open>trading/services/three_d_analyzer.py\<close>)\<close>

datatype DimensionAlignment = BULLISH | BEARISH | NEUTRAL | CONFLICTING

text \<open>
  A dictionary from timeframe label to trend is the list of its items, in insertion order;
  \<open>values()\<close> is the list of second components and \<open>len\<close> the length.
\<close>

type_synonym timeframe_trends = "(string \<times> DimensionAlignment) list"

definition bullish_count :: "timeframe_trends \<Rightarrow> nat" where
  "bullish_count tfs = length (filter (\<lambda>t. t = DimensionAlignment.BULLISH) (map snd tfs))"

definition bearish_count :: "timeframe_trends \<Rightarrow> nat" where
  "bearish_count tfs = length (filter (\<lambda>t. t = DimensionAlignment.BEARISH) (map snd tfs))"

text \<open>\<open>ThreeDAnalyzer._calculate_trend_alignment\<close>, returning \<open>(alignment, primary_trend)\<close>.\<close>

definition calculate_trend_alignment :: "timeframe_trends \<Rightarrow> rat \<times> DimensionAlignment" where
  "calculate_trend_alignment tfs =
     (if tfs = [] then (0, DimensionAlignment.NEUTRAL)
      else
        let total = length tfs in
        if bullish_count tfs > bearish_count tfs
        then (of_nat (bullish_count tfs) / of_nat total, DimensionAlignment.BULLISH)
        else if bearish_count tfs > bullish_count tfs
        then (of_nat (bearish_count tfs) / of_nat total, DimensionAlignment.BEARISH)
        else (0, DimensionAlignment.NEUTRAL))"

datatype Impact = LOW | MEDIUM | HIGH

text \<open>
  Times are microseconds since the epoch and a \<open>timedelta\<close> is a number of microseconds,
  which is how Python stores both.
\<close>

record EconomicEvent =
  release_time :: int
  impact :: Impact
  deviation_from_forecast :: "rat option"

record FundamentalAnalysis =
  event_impact :: DimensionAlignment
  time_to_next_event :: "int option"
  post_event_window :: bool

definition minutes :: "int \<Rightarrow> int" where
  "minutes n = n * 60 * 1000000"

definition hours :: "int \<Rightarrow> int" where
  "hours n = minutes (60 * n)"

definition PRE_EVENT_AVOID_MINUTES :: int where "PRE_EVENT_AVOID_MINUTES = 30"
definition POST_EVENT_TRADE_MINUTES :: int where "POST_EVENT_TRADE_MINUTES = 60"

text \<open>
  The two queries of \<open>_analyze_fundamental\<close>: events of high or medium impact strictly
  inside the window, ordered by release time (ascending for the upcoming ones, descending for
  the recent ones), at most five. Among events released at the same instant the store's order
  is not fixed by the query; the model takes the one of a stable sort.
\<close>

definition upcoming_events :: "int \<Rightarrow> EconomicEvent list \<Rightarrow> EconomicEvent list" where
  "upcoming_events now events =
     take 5 (sort_key release_time
       (filter (\<lambda>e. release_time e > now \<and> release_time e < now + hours 24
                   \<and> (impact e = HIGH \<or> impact e = MEDIUM)) events))"

definition recent_events :: "int \<Rightarrow> EconomicEvent list \<Rightarrow> EconomicEvent list" where
  "recent_events now events =
     take 5 (rev (sort_key release_time
       (filter (\<lambda>e. release_time e > now - hours 2 \<and> release_time e < now
                   \<and> (impact e = HIGH \<or> impact e = MEDIUM)) events)))"

text \<open>
  \<open>ThreeDAnalyzer._analyze_fundamental\<close> without its description string. \<open>if deviation\<close> is
  false for \<open>None\<close> and for zero.
\<close>

definition analyze_fundamental :: "int \<Rightarrow> EconomicEvent list \<Rightarrow> FundamentalAnalysis" where
  "analyze_fundamental now events =
     (let time_to_next =
            (case upcoming_events now events of
               [] \<Rightarrow> None
             | e # _ \<Rightarrow> Some (release_time e - now));
          (window, ev_impact) =
            (case recent_events now events of
               [] \<Rightarrow> (False, DimensionAlignment.NEUTRAL)
             | e # _ \<Rightarrow>
                 if now - release_time e < minutes POST_EVENT_TRADE_MINUTES
                 then (True,
                   (case deviation_from_forecast e of
                      None \<Rightarrow> DimensionAlignment.NEUTRAL
                    | Some deviation \<Rightarrow>
                        if deviation = 0 then DimensionAlignment.NEUTRAL
                        else if deviation > 1 / 2 then DimensionAlignment.BULLISH
                        else if deviation < - (1 / 2) then DimensionAlignment.BEARISH
                        else DimensionAlignment.NEUTRAL))
                 else (False, DimensionAlignment.NEUTRAL))
      in \<lparr>event_impact = ev_impact, time_to_next_event = time_to_next,
          post_event_window = window\<rparr>)"

text \<open>
  \<open>ThreeDAnalyzer._is_valid_signal\<close>. \<open>if fundamental.time_to_next_event\<close> is false for
  \<open>None\<close> and for a zero \<open>timedelta\<close>; \<open>total_seconds() / 60\<close> is the number of minutes.
\<close>

definition ThreeDAnalyzer_is_valid_signal ::
  "DimensionAlignment \<Rightarrow> rat \<Rightarrow> int \<Rightarrow> FundamentalAnalysis \<Rightarrow> bool" where
  "ThreeDAnalyzer_is_valid_signal confluence confluence_score dimensions_aligned fundamental =
     (if confluence = CONFLICTING then False
      else if confluence = DimensionAlignment.NEUTRAL then False
      else if dimensions_aligned < 2 then False
      else if (case time_to_next_event fundamental of
                 None \<Rightarrow> False
               | Some t \<Rightarrow> t \<noteq> 0 \<and> of_int t / 60000000 < (of_int PRE_EVENT_AVOID_MINUTES :: rat))
      then False
      else if confluence_score < 6 / 10 then False
      else True)"

text \<open>The four timeframes of the analyzer, two above and two below their average.\<close>

definition split_trends :: timeframe_trends where
  "split_trends =
     [(''1m'', DimensionAlignment.BULLISH), (''5m'', DimensionAlignment.BULLISH),
      (''15m'', DimensionAlignment.BEARISH), (''1h'', DimensionAlignment.BEARISH)]"

text \<open>A high-impact release twenty minutes after the instant \<open>now\<close>.\<close>

definition cpi_in_20_minutes :: "int \<Rightarrow> EconomicEvent list" where
  "cpi_in_20_minutes now =
     [\<lparr>release_time = now + minutes 20, impact = HIGH, deviation_from_forecast = None\<rparr>]"

section \<open>Positions and daily risk state (\<open>trading/models.py\<close>)\<close>

datatype Side = BUY | SELL

datatype TradeStatus = PENDING | PARTIALLY_FILLED | FILLED | CANCELLED | REJECTED

datatype PositionStatus = OPEN | CLOSED

text \<open>
  The tables live in PostgreSQL. A \<open>DecimalField(max_digits, decimal_places)\<close> is a
  \<open>numeric\<close> column: a write rounds the value to \<open>decimal_places\<close> places and raises
  \<open>DataError\<close> (numeric field overflow) when the rounded magnitude reaches
  \<open>10 ^ (max_digits - decimal_places)\<close>, that is when the magnitude reaches that bound less
  half a unit of the last place. A \<open>CharField(max_length)\<close> refuses a longer string with the
  same error. A value read back is taken as the value written.
\<close>

definition fits_column :: "nat \<Rightarrow> nat \<Rightarrow> rat \<Rightarrow> bool" where
  "fits_column max_digits decimal_places v =
     (\<bar>v\<bar> < 10 ^ (max_digits - decimal_places) - 1 / (2 * 10 ^ decimal_places))"

definition fits_optional :: "nat \<Rightarrow> nat \<Rightarrow> rat option \<Rightarrow> bool" where
  "fits_optional max_digits decimal_places v =
     (case v of None \<Rightarrow> True | Some x \<Rightarrow> fits_column max_digits decimal_places x)"

text \<open>
  The columns of a \<open>Trade\<close> row that closing a position writes; the others keep their
  defaults. The unique column \<open>binance_order_id\<close> stores the decimal digits of the
  exchange's numeric order id (a 64-bit number, well inside the column's 64 characters);
  the model keeps the number. Timestamps are microseconds since the epoch. \<open>Trade_fits\<close>
  says that a row fits the columns an insert can refuse.
\<close>

record Trade =
  binance_order_id :: nat
  symbol :: string
  side :: Side
  order_type :: string
  requested_quantity :: rat
  status :: TradeStatus
  macro_context :: string

definition Trade_fits :: "Trade \<Rightarrow> bool" where
  "Trade_fits t =
     (length (Trade.symbol t) \<le> 20
      \<and> length (order_type t) \<le> 20
      \<and> fits_column 18 8 (requested_quantity t)
      \<and> length (macro_context t) \<le> 200)"

text \<open>A \<open>Position\<close> row. The two trade columns hold the primary keys of \<open>Trade\<close> rows.\<close>

record Position =
  entry_trade :: nat
  exit_trade :: "nat option"
  symbol :: string
  side :: Side
  quantity :: rat
  entry_price :: rat
  current_price :: "rat option"
  unrealized_pnl :: rat
  unrealized_pnl_pct :: rat
  initial_stop :: rat
  current_stop :: rat
  trailing_activated :: bool
  trailing_distance :: "rat option"
  highest_price :: "rat option"
  lowest_price :: "rat option"
  take_profit :: "rat option"
  status :: PositionStatus
  close_reason :: string
  closed_at :: "int option"

text \<open>\<open>Position.save()\<close> writes every column; it raises when one of them does not fit.\<close>

definition Position_fits :: "Position \<Rightarrow> bool" where
  "Position_fits p =
     (length (Position.symbol p) \<le> 20
      \<and> fits_column 18 8 (quantity p)
      \<and> fits_column 18 8 (entry_price p)
      \<and> fits_optional 18 8 (current_price p)
      \<and> fits_column 18 8 (unrealized_pnl p)
      \<and> fits_column 8 6 (unrealized_pnl_pct p)
      \<and> fits_column 18 8 (initial_stop p)
      \<and> fits_column 18 8 (current_stop p)
      \<and> fits_optional 18 8 (trailing_distance p)
      \<and> fits_optional 18 8 (highest_price p)
      \<and> fits_optional 18 8 (lowest_price p)
      \<and> fits_optional 18 8 (take_profit p)
      \<and> length (close_reason p) \<le> 50)"

definition Position_save :: "Position \<Rightarrow> py_error + Position" where
  "Position_save p = (if Position_fits p then Inr p else Inl DataError)"

text \<open>
  \<open>Position.update_unrealized_pnl\<close>, from the row to the row it leaves. The division raises
  when \<open>entry_price * quantity\<close> is zero (\<open>InvalidOperation\<close> for \<open>0 / 0\<close>, \<open>DivisionByZero\<close>,
  a \<open>ZeroDivisionError\<close>, otherwise). The closing \<open>save(update_fields=[...])\<close> writes three
  columns and raises when one of them does not fit. On an exception the row is as before.
\<close>

definition update_unrealized_pnl :: "Position \<Rightarrow> rat \<Rightarrow> py_error + Position" where
  "update_unrealized_pnl p price =
     (let pnl = (if Position.side p = BUY
                 then (price - entry_price p) * quantity p
                 else (entry_price p - price) * quantity p)
      in if entry_price p * quantity p = 0
         then (if pnl = 0 then Inl InvalidOperation else Inl ZeroDivisionError)
         else
           let pnl_pct = pnl / (entry_price p * quantity p) * 100
           in if fits_column 18 8 price \<and> fits_column 18 8 pnl \<and> fits_column 8 6 pnl_pct
              then Inr (p\<lparr>current_price := Some price,
                          unrealized_pnl := pnl,
                          unrealized_pnl_pct := pnl_pct\<rparr>)
              else Inl DataError)"

text \<open>
  The statements of \<open>Position.update_trailing_stop\<close> before its closing \<open>save()\<close>: the
  object as they leave it. The profit is read from the stored \<open>unrealized_pnl_pct\<close>.
  \<open>self.highest_price or Decimal('0')\<close> is zero for \<open>None\<close>. Subtracting or adding a
  \<open>trailing_distance\<close> that is \<open>None\<close> raises \<open>TypeError\<close>.
\<close>

definition update_trailing_stop_assign :: "Position \<Rightarrow> rat \<Rightarrow> rat \<Rightarrow> py_error + Position" where
  "update_trailing_stop_assign p price trailing_trigger_pct =
     (let profit_pct = unrealized_pnl_pct p;
          p1 = (if \<not> trailing_activated p \<and> profit_pct \<ge> trailing_trigger_pct * 100
                then p\<lparr>trailing_activated := True,
                       trailing_distance := Some \<bar>price - current_stop p\<bar>,
                       highest_price := (if Position.side p = BUY then Some price else None),
                       lowest_price := (if Position.side p = SELL then Some price else None)\<rparr>
                else p)
      in if trailing_activated p1 then
           if Position.side p1 = BUY then
             if price > (case highest_price p1 of None \<Rightarrow> 0 | Some h \<Rightarrow> h) then
               (case trailing_distance p1 of
                  None \<Rightarrow> Inl TypeError
                | Some d \<Rightarrow>
                    let p2 = p1\<lparr>highest_price := Some price\<rparr>;
                        new_stop = price - d
                    in if new_stop > current_stop p2
                       then Inr (p2\<lparr>current_stop := new_stop\<rparr>)
                       else Inr p2)
             else Inr p1
           else
             if (case lowest_price p1 of None \<Rightarrow> True | Some l \<Rightarrow> price < l) then
               (case trailing_distance p1 of
                  None \<Rightarrow> Inl TypeError
                | Some d \<Rightarrow>
                    let p2 = p1\<lparr>lowest_price := Some price\<rparr>;
                        new_stop = price + d
                    in if new_stop < current_stop p2
                       then Inr (p2\<lparr>current_stop := new_stop\<rparr>)
                       else Inr p2)
             else Inr p1
         else Inr p1)"

text \<open>
  \<open>Position.update_trailing_stop\<close>, from the row to the row it leaves: the statements, then
  \<open>self.save()\<close>. On an exception the row is as before.
\<close>

definition update_trailing_stop :: "Position \<Rightarrow> rat \<Rightarrow> rat \<Rightarrow> py_error + Position" where
  "update_trailing_stop p price trailing_trigger_pct =
     (case update_trailing_stop_assign p price trailing_trigger_pct of
        Inl err \<Rightarrow> Inl err
      | Inr p' \<Rightarrow> Position_save p')"

text \<open>
  The body of the loop of \<open>RiskManager.update_trailing_stops\<close> for one open position whose
  symbol has a price: the profit is refreshed, then the trailing stop is updated. The result
  is the exception that ended the step, if any, and the row as the step leaves it: a
  refreshed profit stays written when the second call raises.
\<close>

definition update_position :: "Position \<Rightarrow> rat \<Rightarrow> rat \<Rightarrow> py_error option \<times> Position" where
  "update_position p price trailing_trigger_pct =
     (case update_unrealized_pnl p price of
        Inl err \<Rightarrow> (Some err, p)
      | Inr p1 \<Rightarrow>
          (case update_trailing_stop p1 price trailing_trigger_pct of
             Inl err \<Rightarrow> (Some err, p1)
           | Inr p2 \<Rightarrow> (None, p2)))"

text \<open>\<open>RiskManager._check_stop_hit\<close>.\<close>

definition check_stop_hit :: "Position \<Rightarrow> rat \<Rightarrow> bool" where
  "check_stop_hit p price =
     (if Position.side p = BUY then price \<le> current_stop p else price \<ge> current_stop p)"

text \<open>
  \<open>RiskManager.get_stop_loss_price\<close>; \<open>if atr and atr > 0\<close> fails for \<open>None\<close> and for a
  non-positive range.
\<close>

definition get_stop_loss_price :: "rat \<Rightarrow> Side \<Rightarrow> rat option \<Rightarrow> rat \<Rightarrow> rat" where
  "get_stop_loss_price entry sd atr risk_multiple =
     (let stop_distance =
            (case atr of
               None \<Rightarrow> entry * (1 / 100)
             | Some a \<Rightarrow> if a > 0 then a * risk_multiple else entry * (1 / 100))
      in if sd = BUY then entry - stop_distance else entry + stop_distance)"

text \<open>
  The relation between stop, high-water mark and trailing distance that a long position is
  to satisfy once its trailing stop is active.
\<close>

definition long_stop_inv :: "Position \<Rightarrow> bool" where
  "long_stop_inv p =
     (case highest_price p of
        None \<Rightarrow> False
      | Some h \<Rightarrow>
          (case trailing_distance p of
             None \<Rightarrow> False
           | Some d \<Rightarrow> current_stop p \<le> h - d))"

text \<open>
  A long position of one unit entered at 100 with its stop one percent below, as
  \<open>create_position_from_trade\<close> opens it; and the long of the specification's trailing
  scenario, entered at 100 with its stop at 98, at three moments: as opened, with its profit
  refreshed at the price 102, and once trailing is active.
\<close>

definition fresh_long :: Position where
  "fresh_long =
     \<lparr>entry_trade = 1, exit_trade = None, symbol = ''BTCUSDT'', side = BUY, quantity = 1,
      entry_price = 100, current_price = None, unrealized_pnl = 0, unrealized_pnl_pct = 0,
      initial_stop = 99, current_stop = 99, trailing_activated = False,
      trailing_distance = None, highest_price = None, lowest_price = None,
      take_profit = None, status = OPEN, close_reason = [], closed_at = None\<rparr>"

definition scenario_long :: Position where
  "scenario_long = fresh_long\<lparr>initial_stop := 98, current_stop := 98\<rparr>"

definition profitable_long :: Position where
  "profitable_long = scenario_long\<lparr>current_price := Some 102, unrealized_pnl := 2,
     unrealized_pnl_pct := 2\<rparr>"

definition trailing_long :: Position where
  "trailing_long = profitable_long\<lparr>trailing_activated := True, trailing_distance := Some 4,
     highest_price := Some 102\<rparr>"

datatype SystemStatus = ACTIVE | PAUSED | EMERGENCY_STOP

record RiskState =
  date :: int
  starting_balance :: rat
  current_balance :: rat
  highest_balance :: rat
  daily_pnl :: rat
  daily_pnl_pct :: rat
  drawdown :: rat
  drawdown_pct :: rat
  max_drawdown_pct :: rat
  total_trades :: int
  winning_trades :: int
  losing_trades :: int
  system_status :: SystemStatus
  pause_reason :: string
  paused_at :: "int option"

text \<open>\<open>RiskState.save()\<close> writes every column; it raises when one of them does not fit.\<close>

definition RiskState_fits :: "RiskState \<Rightarrow> bool" where
  "RiskState_fits rs =
     (fits_column 18 8 (starting_balance rs)
      \<and> fits_column 18 8 (current_balance rs)
      \<and> fits_column 18 8 (highest_balance rs)
      \<and> fits_column 18 8 (daily_pnl rs)
      \<and> fits_column 8 6 (daily_pnl_pct rs)
      \<and> fits_column 18 8 (drawdown rs)
      \<and> fits_column 8 6 (drawdown_pct rs)
      \<and> fits_column 8 6 (max_drawdown_pct rs)
      \<and> length (pause_reason rs) \<le> 200)"

text \<open>
  The statements of \<open>RiskState.update_balance\<close> before its closing \<open>save()\<close>, one by one:
  the object as the method leaves it, whether or not the save succeeds.
\<close>

definition update_balance_assign :: "RiskState \<Rightarrow> rat \<Rightarrow> RiskState" where
  "update_balance_assign rs new_balance =
     (let rs1 = rs\<lparr>current_balance := new_balance\<rparr>;
          rs2 = (if new_balance > highest_balance rs1
                 then rs1\<lparr>highest_balance := new_balance\<rparr> else rs1);
          rs3 = rs2\<lparr>daily_pnl := new_balance - starting_balance rs2\<rparr>;
          rs4 = (if starting_balance rs3 > 0
                 then rs3\<lparr>daily_pnl_pct := daily_pnl rs3 / starting_balance rs3 * 100\<rparr>
                 else rs3);
          rs5 = rs4\<lparr>drawdown := highest_balance rs4 - new_balance\<rparr>;
          rs6 = (if highest_balance rs5 > 0
                 then rs5\<lparr>drawdown_pct := drawdown rs5 / highest_balance rs5 * 100\<rparr>
                 else rs5)
      in if drawdown_pct rs6 > max_drawdown_pct rs6
         then rs6\<lparr>max_drawdown_pct := drawdown_pct rs6\<rparr>
         else rs6)"

text \<open>
  \<open>RiskState.update_balance\<close>, from the row to the row it leaves: the statements, then
  \<open>self.save()\<close>. On an exception the row is as before, which \<open>store_balance\<close> spells out.
\<close>

definition update_balance :: "RiskState \<Rightarrow> rat \<Rightarrow> py_error + RiskState" where
  "update_balance rs new_balance =
     (if RiskState_fits (update_balance_assign rs new_balance)
      then Inr (update_balance_assign rs new_balance)
      else Inl DataError)"

definition store_balance :: "RiskState \<Rightarrow> rat \<Rightarrow> RiskState" where
  "store_balance rs new_balance =
     (case update_balance rs new_balance of Inl err \<Rightarrow> rs | Inr rs' \<Rightarrow> rs')"

text \<open>
  The table of daily rows, keyed by date. \<open>RiskState.get_or_create_today\<close> returns today's
  row and inserts it first when it is missing, with the model's column defaults;
  \<open>starting_balance or Decimal('0')\<close> is zero for \<open>None\<close>.
\<close>

type_synonym risk_table = "int \<rightharpoonup> RiskState"

definition get_or_create_today ::
  "int \<Rightarrow> rat option \<Rightarrow> risk_table \<Rightarrow> RiskState \<times> risk_table" where
  "get_or_create_today today starting table =
     (case table today of
        Some rs \<Rightarrow> (rs, table)
      | None \<Rightarrow>
          let b = (case starting of None \<Rightarrow> 0 | Some s \<Rightarrow> s);
              rs = \<lparr>date = today, starting_balance = b, current_balance = b,
                    highest_balance = b, daily_pnl = 0, daily_pnl_pct = 0, drawdown = 0,
                    drawdown_pct = 0, max_drawdown_pct = 0, total_trades = 0,
                    winning_trades = 0, losing_trades = 0, system_status = ACTIVE,
                    pause_reason = [], paused_at = None\<rparr>
          in (rs, table(today \<mapsto> rs)))"

section \<open>Circuit breaker (\<open>trading/services/risk_manager.py\<close>)\<close>

datatype breaker_reason =
    AlreadyPaused string
  | UnableToCheckBalance
  | DrawdownExceeded rat rat
  | NoReason
  | ErrorReason py_error

text \<open>
  The balance \<open>check_circuit_breaker\<close> works with: its argument when given, else the one the
  exchange client returns, when there is a client. The client's call can raise.
\<close>

definition resolve_balance :: "rat option \<Rightarrow> (py_error + rat) option \<Rightarrow> py_error + rat option" where
  "resolve_balance current client =
     (case current of
        Some b \<Rightarrow> Inr (Some b)
      | None \<Rightarrow>
          (case client of
             None \<Rightarrow> Inr None
           | Some (Inl err) \<Rightarrow> Inl err
           | Some (Inr b) \<Rightarrow> Inr (Some b)))"

text \<open>
  \<open>RiskManager.check_circuit_breaker\<close>. The database is a table, or an error when it cannot
  be reached; the result is \<open>(should_trigger, reason)\<close> with the table as the call leaves it.
  Every exception ends in the handler, which answers \<open>False\<close>: also the one of a row that
  \<open>update_balance\<close> cannot save, which then stays as it was.
\<close>

definition check_circuit_breaker ::
  "int \<Rightarrow> py_error + risk_table \<Rightarrow> rat option \<Rightarrow> (py_error + rat) option \<Rightarrow> rat
     \<Rightarrow> (bool \<times> breaker_reason) \<times> (py_error + risk_table)" where
  "check_circuit_breaker today db current client daily_drawdown_limit =
     (case db of
        Inl err \<Rightarrow> ((False, ErrorReason err), db)
      | Inr table \<Rightarrow>
          let (risk_state, table1) = get_or_create_today today None table
          in if system_status risk_state = PAUSED
             then ((True, AlreadyPaused (pause_reason risk_state)), Inr table1)
             else
               (case resolve_balance current client of
                  Inl err \<Rightarrow> ((False, ErrorReason err), Inr table1)
                | Inr None \<Rightarrow> ((False, UnableToCheckBalance), Inr table1)
                | Inr (Some b) \<Rightarrow>
                    (case update_balance risk_state b of
                       Inl err \<Rightarrow> ((False, ErrorReason err), Inr table1)
                     | Inr risk_state' \<Rightarrow>
                         let table2 = table1(today \<mapsto> risk_state')
                         in if drawdown_pct risk_state' \<ge> daily_drawdown_limit * 100
                            then ((True, DrawdownExceeded (drawdown_pct risk_state')
                                           (daily_drawdown_limit * 100)), Inr table2)
                            else ((False, NoReason), Inr table2))))"

text \<open>
  The day of the specification's scenario: opened at 10 000, risen to 10 500.
\<close>

definition scenario_day :: RiskState where
  "scenario_day =
     update_balance_assign (fst (get_or_create_today 0 (Some 10000) Map.empty)) 10500"

section \<open>Slippage admission (\<open>trading/services/risk_manager.py\<close>)\<close>

text \<open>An order book: price levels \<open>(price, quantity)\<close>, best price first on each side.\<close>

record order_book =
  bids :: "(rat \<times> rat) list"
  asks :: "(rat \<times> rat) list"

datatype slippage_reason =
    NoOrderBookData
  | EmptyOrderBook
  | InsufficientLiquidity rat
  | SlippageAcceptable
  | SlippageExceeds rat rat
  | SlippageError py_error

record SlippageCheck =
  estimated_slippage_pct :: rat
  is_acceptable :: bool
  sufficient_liquidity :: bool
  estimated_avg_price :: rat
  reason :: slippage_reason

text \<open>
  The book \<open>check_slippage\<close> works with: its argument when given; else the cached one, when
  there is a cache; else the one the exchange client returns, when there is a client. Both
  reads can raise.
\<close>

definition fetch_order_book ::
  "order_book option \<Rightarrow> (py_error + order_book option) option \<Rightarrow> (py_error + order_book) option
     \<Rightarrow> py_error + order_book option" where
  "fetch_order_book given redis_cache binance_client =
     (case given of
        Some ob \<Rightarrow> Inr (Some ob)
      | None \<Rightarrow>
          (case (case redis_cache of None \<Rightarrow> Inr None | Some r \<Rightarrow> r) of
             Inl err \<Rightarrow> Inl err
           | Inr (Some ob) \<Rightarrow> Inr (Some ob)
           | Inr None \<Rightarrow>
               (case binance_client of
                  None \<Rightarrow> Inr None
                | Some (Inl err) \<Rightarrow> Inl err
                | Some (Inr ob) \<Rightarrow> Inr (Some ob))))"

text \<open>
  The loop of \<open>check_slippage\<close> over the levels, returning \<open>(remaining_qty, total_cost)\<close>;
  \<open>break\<close> leaves the loop with both unchanged.
\<close>

fun walk_levels :: "(rat \<times> rat) list \<Rightarrow> rat \<Rightarrow> rat \<Rightarrow> rat \<times> rat" where
  "walk_levels [] remaining_qty total_cost = (remaining_qty, total_cost)"
| "walk_levels ((price, qty) # levels) remaining_qty total_cost =
     (if remaining_qty \<le> 0 then (remaining_qty, total_cost)
      else
        let fill_qty = min remaining_qty qty
        in walk_levels levels (remaining_qty - fill_qty) (total_cost + fill_qty * price))"

definition slippage_failure :: "rat \<Rightarrow> slippage_reason \<Rightarrow> SlippageCheck" where
  "slippage_failure pct why =
     \<lparr>estimated_slippage_pct = pct, is_acceptable = False, sufficient_liquidity = False,
      estimated_avg_price = 0, reason = why\<rparr>"

text \<open>
  \<open>RiskManager.check_slippage\<close>. The two divisions raise on a zero divisor
  (\<open>InvalidOperation\<close> for \<open>0 / 0\<close>), and every exception ends in the handler.
\<close>

definition check_slippage ::
  "Side \<Rightarrow> rat \<Rightarrow> order_book option \<Rightarrow> (py_error + order_book option) option
     \<Rightarrow> (py_error + order_book) option \<Rightarrow> rat \<Rightarrow> SlippageCheck" where
  "check_slippage sd order_quantity given redis_cache binance_client max_slippage_pct =
     (case fetch_order_book given redis_cache binance_client of
        Inl err \<Rightarrow> slippage_failure 999 (SlippageError err)
      | Inr None \<Rightarrow> slippage_failure 999 NoOrderBookData
      | Inr (Some ob) \<Rightarrow>
          let levels = (if sd = BUY then asks ob else bids ob)
          in (case levels of
                [] \<Rightarrow> slippage_failure 999 EmptyOrderBook
              | (best_price, _) # _ \<Rightarrow>
                  let (remaining_qty, total_cost) = walk_levels levels order_quantity 0
                  in if remaining_qty > 0
                     then slippage_failure 100 (InsufficientLiquidity remaining_qty)
                     else if order_quantity = 0
                     then slippage_failure 999
                            (SlippageError (if total_cost = 0 then InvalidOperation
                                            else ZeroDivisionError))
                     else
                       let avg_price = total_cost / order_quantity;
                           slippage = \<bar>avg_price - best_price\<bar>
                       in if best_price = 0
                          then slippage_failure 999
                                 (SlippageError (if slippage = 0 then InvalidOperation
                                                 else ZeroDivisionError))
                          else
                            let slippage_pct = slippage / best_price * 100;
                                acceptable = (slippage_pct \<le> max_slippage_pct * 100)
                            in \<lparr>estimated_slippage_pct = slippage_pct,
                                is_acceptable = acceptable,
                                sufficient_liquidity = True,
                                estimated_avg_price = avg_price,
                                reason = (if acceptable then SlippageAcceptable
                                          else SlippageExceeds slippage_pct
                                                 (max_slippage_pct * 100))\<rparr>))"

text \<open>
  What the specification calls the total cost of a quantity on a ladder: each level, from
  the top, gives what is still wanted up to its own quantity, at its price.
\<close>

fun ladder_cost :: "(rat \<times> rat) list \<Rightarrow> rat \<Rightarrow> rat" where
  "ladder_cost [] wanted = 0"
| "ladder_cost ((price, qty) # levels) wanted =
     min wanted qty * price + ladder_cost levels (wanted - min wanted qty)"

definition ladder_quantity :: "(rat \<times> rat) list \<Rightarrow> rat" where
  "ladder_quantity levels = sum_list (map snd levels)"

text \<open>Price levels as an exchange publishes them: positive prices, non-negative quantities.\<close>

definition wf_levels :: "(rat \<times> rat) list \<Rightarrow> bool" where
  "wf_levels levels = list_all (\<lambda>(price, qty). 0 < price \<and> 0 \<le> qty) levels"

text \<open>The book of the specification's slippage scenario.\<close>

definition scenario_book :: order_book where
  "scenario_book =
     \<lparr>bids = [(99, 1)], asks = [(100, 1 / 2), (201 / 2, 1 / 2), (101, 10)]\<rparr>"

section \<open>Trading gate (\<open>trading/services/risk_manager.py\<close>, \<open>trading/services/redis_cache.py\<close>)\<close>

text \<open>
  The value stored under \<open>system:status\<close> is a JSON object, here a map from key to string.
  A read of the key gives an error (the store cannot be reached, or the value does not
  parse), nothing, or the object.
\<close>

type_synonym status_dict = "string \<rightharpoonup> string"

type_synonym status_read = "py_error + status_dict option"

text \<open>\<open>RedisCache.get_system_status\<close>.\<close>

definition get_system_status :: "status_read \<Rightarrow> py_error + status_dict" where
  "get_system_status data =
     (case data of
        Inl err \<Rightarrow> Inl err
      | Inr (Some d) \<Rightarrow> Inr d
      | Inr None \<Rightarrow>
          Inr [''status'' \<mapsto> ''UNKNOWN'', ''reason'' \<mapsto> [], ''timestamp'' \<mapsto> ''0''])"

text \<open>\<open>RedisCache.is_trading_active\<close>.\<close>

definition is_trading_active :: "status_read \<Rightarrow> py_error + bool" where
  "is_trading_active data =
     (case get_system_status data of
        Inl err \<Rightarrow> Inl err
      | Inr d \<Rightarrow> Inr (d ''status'' = Some ''ACTIVE''))"

text \<open>
  The \<open>try\<close> block of \<open>RiskManager.is_trading_allowed\<close>. The cache, when the manager has one,
  is read once by \<open>is_trading_active\<close> and, if trading is not active, once more by
  \<open>get_system_status\<close>: \<open>redis_cache\<close> gives the outcome of the two reads. The database is a
  table, or an error when it cannot be reached. The row that \<open>get_or_create_today\<close> may insert
  is not part of the answer and is left out.
\<close>

definition is_trading_allowed_try ::
  "int \<Rightarrow> (status_read \<times> status_read) option \<Rightarrow> py_error + risk_table
     \<Rightarrow> py_error + bool \<times> string" where
  "is_trading_allowed_try today redis_cache db =
     (let check_database =
            (case db of
               Inl err \<Rightarrow> Inl err
             | Inr table \<Rightarrow>
                 let risk_state = fst (get_or_create_today today None table)
                 in if system_status risk_state = PAUSED
                    then Inr (False, pause_reason risk_state)
                    else if system_status risk_state = EMERGENCY_STOP
                    then Inr (False, ''Emergency stop active'')
                    else Inr (True, []))
      in case redis_cache of
           None \<Rightarrow> check_database
         | Some (first_read, second_read) \<Rightarrow>
             (case is_trading_active first_read of
                Inl err \<Rightarrow> Inl err
              | Inr True \<Rightarrow> check_database
              | Inr False \<Rightarrow>
                  (case get_system_status second_read of
                     Inl err \<Rightarrow> Inl err
                   | Inr current \<Rightarrow>
                       Inr (False,
                         (case current ''reason'' of
                            None \<Rightarrow> ''System paused''
                          | Some r \<Rightarrow> r)))))"

text \<open>\<open>RiskManager.is_trading_allowed\<close>: the block above under its handler.\<close>

definition is_trading_allowed ::
  "int \<Rightarrow> (status_read \<times> status_read) option \<Rightarrow> py_error + risk_table \<Rightarrow> bool \<times> string" where
  "is_trading_allowed today redis_cache db =
     (case is_trading_allowed_try today redis_cache db of
        Inl err \<Rightarrow> (True, [])
      | Inr answer \<Rightarrow> answer)"

definition paused_status :: status_dict where
  "paused_status = [''status'' \<mapsto> ''PAUSED'', ''reason'' \<mapsto> ''Daily drawdown'']"

section \<open>Closing a position (\<open>trading/tasks.py\<close>)\<close>

text \<open>
  What \<open>close_position\<close> reads and writes: the two tables, the sequence that numbers the
  \<open>Trade\<close> rows, the market orders the exchange has accepted (with the order id it gave
  each), and the queue of \<open>monitor_order\<close> tasks. A \<open>Trade\<close> row is kept with its primary
  key. Every write is committed on its own: the task opens no transaction.
\<close>

datatype market_order = MarketOrder string Side rat

record world =
  positions :: "nat \<rightharpoonup> Position"
  trades :: "(nat \<times> Trade) list"
  trade_sequence :: nat
  exchange_orders :: "(nat \<times> market_order) list"
  monitor_queue :: "nat list"

text \<open>
  What the surroundings do during one call: whether the database fails while the position
  is looked up, the exit trade inserted or the position saved (a lost connection, say), what
  the exchange answers to the market order (an order id or an error), and whether handing
  the monitor task to the queue fails.
\<close>

record close_env =
  lookup_fault :: "py_error option"
  response :: "py_error + nat"
  insert_fault :: "py_error option"
  save_fault :: "py_error option"
  enqueue_fault :: "py_error option"

datatype close_result =
    AlreadyClosed
  | CloseSuccess nat string nat
  | CloseError py_error
  | PositionNotFound

text \<open>
  The task \<open>close_position\<close> at the time \<open>now\<close>. The market order is placed first. The insert
  of the exit trade then takes the next number of the sequence, which is used up also when
  the row is refused: with \<open>DataError\<close> when it does not fit its columns, with
  \<open>IntegrityError\<close> when its order id is already in the table. The save of the position
  raises \<open>DataError\<close> when the row, now with the reason, does not fit. The two handlers turn a
  missing position, and any other exception, into an error answer; what was done before the
  exception stays done: an accepted order is not cancelled, an inserted trade not removed.
  The dashboard broadcast has a handler of its own and changes nothing here.
\<close>

definition close_position ::
  "close_env \<Rightarrow> int \<Rightarrow> nat \<Rightarrow> string \<Rightarrow> world \<Rightarrow> close_result \<times> world" where
  "close_position env now position_id why w =
     (case lookup_fault env of
        Some err \<Rightarrow> (CloseError err, w)
      | None \<Rightarrow>
     (case positions w position_id of
        None \<Rightarrow> (PositionNotFound, w)
      | Some pos \<Rightarrow>
          if Position.status pos \<noteq> OPEN then (AlreadyClosed, w)
          else
            let exit_side = (if Position.side pos = BUY then SELL else BUY)
            in (case response env of
                  Inl err \<Rightarrow> (CloseError err, w)
                | Inr order_id \<Rightarrow>
                    let w1 = w\<lparr>exchange_orders := exchange_orders w @
                               [(order_id,
                                 MarketOrder (Position.symbol pos) exit_side (quantity pos))]\<rparr>;
                        new_trade =
                          \<lparr>binance_order_id = order_id,
                           symbol = Position.symbol pos,
                           side = exit_side,
                           order_type = ''MARKET'',
                           requested_quantity = quantity pos,
                           status = PENDING,
                           macro_context = ''Position close: '' @ why\<rparr>
                    in (case insert_fault env of
                          Some err \<Rightarrow> (CloseError err, w1)
                        | None \<Rightarrow>
                            let trade_id = Suc (trade_sequence w1);
                                w2 = w1\<lparr>trade_sequence := trade_id\<rparr>
                            in if \<not> Trade_fits new_trade then (CloseError DataError, w2)
                               else if order_id \<in> set (map (binance_order_id \<circ> snd) (trades w2))
                               then (CloseError IntegrityError, w2)
                               else
                                 let w3 = w2\<lparr>trades := trades w2 @ [(trade_id, new_trade)]\<rparr>;
                                     pos' = pos\<lparr>exit_trade := Some trade_id,
                                                Position.status := CLOSED,
                                                close_reason := why,
                                                closed_at := Some now\<rparr>
                                 in (case save_fault env of
                                       Some err \<Rightarrow> (CloseError err, w3)
                                     | None \<Rightarrow>
                                         if \<not> Position_fits pos'
                                         then (CloseError DataError, w3)
                                         else
                                           let w4 = w3\<lparr>positions :=
                                                      (positions w3)(position_id \<mapsto> pos')\<rparr>
                                           in (case enqueue_fault env of
                                                 Some err \<Rightarrow> (CloseError err, w4)
                                               | None \<Rightarrow>
                                                   (CloseSuccess position_id why order_id,
                                                    w4\<lparr>monitor_queue :=
                                                         monitor_queue w4 @ [trade_id]\<rparr>)))))))"

text \<open>
  Surroundings without faults where the exchange gives the order the id \<open>n\<close>, and the same
  where it rejects the order.
\<close>

definition accepting :: "nat \<Rightarrow> close_env" where
  "accepting n =
     \<lparr>lookup_fault = None, response = Inr n, insert_fault = None, save_fault = None,
      enqueue_fault = None\<rparr>"

definition rejecting :: close_env where
  "rejecting =
     \<lparr>lookup_fault = None, response = Inl BinanceAPIException, insert_fault = None,
      save_fault = None, enqueue_fault = None\<rparr>"

text \<open>
  One open long on BTCUSDT, position 7, with its filled entry trade, and a filled trade on
  ETHUSDT. The exchange numbers the orders of each symbol on their own, so an order on
  BTCUSDT can come back with the id 4242 that an order on ETHUSDT already has.
\<close>

definition one_open_long :: world where
  "one_open_long =
     \<lparr>positions = [7 \<mapsto> fresh_long],
      trades = [(1, \<lparr>binance_order_id = 9000, symbol = ''BTCUSDT'', side = BUY,
                     order_type = ''LIMIT'', requested_quantity = 1, status = FILLED,
                     macro_context = []\<rparr>),
                (2, \<lparr>binance_order_id = 4242, symbol = ''ETHUSDT'', side = BUY,
                     order_type = ''LIMIT'', requested_quantity = 1, status = FILLED,
                     macro_context = []\<rparr>)],
      trade_sequence = 2,
      exchange_orders = [],
      monitor_queue = []\<rparr>"

section \<open>Properties of the VPA analyzer\<close>

lemma VPAAnalyzer_is_valid_signal_eq:
  "VPAAnalyzer_is_valid_signal p s t = (p \<noteq> VPAPattern.NEUTRAL \<and> 1 / 2 \<le> s)"
  by (auto simp: VPAAnalyzer_is_valid_signal_def)

text \<open>
  C3. The claim: a signal is valid exactly when its pattern is not NEUTRAL, its strength is at
  least 0.5, and the pattern is a reversal pattern, or NO_DEMAND outside a bullish trend, or
  NO_SUPPLY outside a bearish trend; so NO_DEMAND in a bullish trend is never valid. The code
  at a low-volume up bar closing in its upper third, in a bullish trend (volume z-score -1,
  average spread, close position 0.8): the pattern is NO_DEMAND, the strength is 0.56, and
  the signal is reported valid.
\<close>

theorem vpa_no_demand_bullish_is_valid:
  "analyze_metrics (- 1) 1 (8 / 10) True TrendDirection.BULLISH =
     \<lparr>pattern = NO_DEMAND, strength = 56 / 100, is_valid_signal = True\<rparr>"
  by (simp add: analyze_metrics_def identify_pattern_def calculate_strength_def
      VPAAnalyzer_is_valid_signal_def reversal_patterns_def
      ULTRA_HIGH_VOLUME_def HIGH_VOLUME_def LOW_VOLUME_def UPPER_THIRD_def Let_def)

section \<open>Properties of the exchange gateway\<close>

text \<open>
  C4. The claim: \<open>format_quantity\<close> rounds a non-negative quantity down to the decimal places
  of the step size, so the result never exceeds the quantity. The code at the step 0.001 and
  the quantity 0.0016: the result is 0.002, above the quantity.
\<close>

theorem format_quantity_rounds_up:
  "format_quantity btc_info ''BTCUSDT'' \<lparr>coefficient = 16, exponent = -4\<rparr>
     = Inr \<lparr>coefficient = 2, exponent = -3\<rparr>
   \<and> dec_value \<lparr>coefficient = 16, exponent = -4\<rparr> < dec_value \<lparr>coefficient = 2, exponent = -3\<rparr>"
  by (simp add: format_quantity_def btc_info_def quantize_def dec_value_def Let_def)

section \<open>Properties of the 3-D analyzer\<close>

lemma calculate_trend_alignment_tie:
  "bullish_count tfs = bearish_count tfs \<Longrightarrow>
     calculate_trend_alignment tfs = (0, DimensionAlignment.NEUTRAL)"
  by (simp add: calculate_trend_alignment_def)

text \<open>
  C7, as stated: the alignment is \<open>max(bullish_count, bearish_count) / total\<close> for every
  non-empty map, so 0.5 for two bullish and two bearish timeframes. The code returns 0 there.
\<close>

theorem trend_alignment_tie_counterexample:
  "split_trends \<noteq> []
   \<and> calculate_trend_alignment split_trends = (0, DimensionAlignment.NEUTRAL)
   \<and> (of_nat (max (bullish_count split_trends) (bearish_count split_trends))
        / of_nat (length split_trends) :: rat) = 1 / 2"
  by (simp add: calculate_trend_alignment_def split_trends_def bullish_count_def
      bearish_count_def)

text \<open>
  C7, amended: for every non-empty map of per-timeframe trends, the alignment is
  \<open>max(bullish_count, bearish_count) / total\<close> when the two counts differ, with the majority
  direction as primary trend, and it is 0 with primary trend NEUTRAL when they are equal.
\<close>

theorem calculate_trend_alignment_cases:
  assumes "tfs \<noteq> []"
  shows "calculate_trend_alignment tfs =
     (if bullish_count tfs = bearish_count tfs then (0, DimensionAlignment.NEUTRAL)
      else (of_nat (max (bullish_count tfs) (bearish_count tfs)) / of_nat (length tfs),
            if bullish_count tfs > bearish_count tfs then DimensionAlignment.BULLISH
            else DimensionAlignment.BEARISH))"
  using assms by (auto simp: calculate_trend_alignment_def Let_def max_def)

theorem calculate_trend_alignment_cases_witness:
  "calculate_trend_alignment
     [(''1m'', DimensionAlignment.BULLISH), (''5m'', DimensionAlignment.BULLISH),
      (''15m'', DimensionAlignment.BULLISH), (''1h'', DimensionAlignment.BEARISH)]
     = (3 / 4, DimensionAlignment.BULLISH)
   \<and> calculate_trend_alignment split_trends = (0, DimensionAlignment.NEUTRAL)"
proof -
  have ne: "[(''1m'', DimensionAlignment.BULLISH), (''5m'', DimensionAlignment.BULLISH),
      (''15m'', DimensionAlignment.BULLISH), (''1h'', DimensionAlignment.BEARISH)] \<noteq> []"
    by simp
  have ne': "split_trends \<noteq> []"
    by (simp add: split_trends_def)
  show ?thesis
    using calculate_trend_alignment_cases [OF ne] calculate_trend_alignment_cases [OF ne']
    by (simp add: bullish_count_def bearish_count_def split_trends_def)
qed

lemma upcoming_events_after_now:
  assumes "upcoming_events now events = e # es"
  shows "now < release_time e"
proof -
  have "e \<in> set (upcoming_events now events)"
    using assms by simp
  then have "e \<in> set (filter (\<lambda>e. release_time e > now \<and> release_time e < now + hours 24
                   \<and> (impact e = HIGH \<or> impact e = MEDIUM)) events)"
    unfolding upcoming_events_def by (auto dest: in_set_takeD)
  then show ?thesis by simp
qed

lemma time_to_next_event_positive:
  "time_to_next_event (analyze_fundamental now events) = Some t \<Longrightarrow> 0 < t"
  by (auto simp: analyze_fundamental_def Let_def split: list.splits prod.splits
      dest: upcoming_events_after_now)

text \<open>
  C6. For the fundamental analysis of any event table at any instant, and any confluence,
  score and number of aligned dimensions, the 3-D signal is valid exactly when the confluence
  is BULLISH or BEARISH, at least two dimensions are aligned, the time to the next event is
  absent or at least 30 minutes, and the confluence score is at least 0.6.
\<close>

theorem ThreeDAnalyzer_is_valid_signal_iff:
  "ThreeDAnalyzer_is_valid_signal confluence confluence_score dimensions_aligned
      (analyze_fundamental now events)
   = ((confluence = DimensionAlignment.BULLISH \<or> confluence = DimensionAlignment.BEARISH)
      \<and> 2 \<le> dimensions_aligned
      \<and> (case time_to_next_event (analyze_fundamental now events) of
           None \<Rightarrow> True
         | Some t \<Rightarrow> minutes 30 \<le> t)
      \<and> 6 / 10 \<le> confluence_score)"
proof (cases "time_to_next_event (analyze_fundamental now events)")
  case None
  then show ?thesis
    by (cases confluence) (auto simp: ThreeDAnalyzer_is_valid_signal_def)
next
  case (Some t)
  then have "0 < t"
    by (rule time_to_next_event_positive)
  then have "(t \<noteq> 0 \<and> (of_int t :: rat) / 60000000 < of_int PRE_EVENT_AVOID_MINUTES)
      = (\<not> minutes 30 \<le> t)"
    by (auto simp: PRE_EVENT_AVOID_MINUTES_def minutes_def field_simps)
  with Some show ?thesis
    by (cases confluence) (auto simp: ThreeDAnalyzer_is_valid_signal_def)
qed

text \<open>
  The pre-event guard of the specification: a bullish confluence of two aligned dimensions
  with full score is not a valid signal while a high-impact release is twenty minutes away.
\<close>

theorem pre_event_guard_witness:
  "time_to_next_event (analyze_fundamental 0 (cpi_in_20_minutes 0)) = Some (minutes 20)
   \<and> \<not> ThreeDAnalyzer_is_valid_signal DimensionAlignment.BULLISH 1 2
        (analyze_fundamental 0 (cpi_in_20_minutes 0))"
proof -
  have ttn: "time_to_next_event (analyze_fundamental 0 (cpi_in_20_minutes 0)) = Some (minutes 20)"
    by (simp add: analyze_fundamental_def upcoming_events_def recent_events_def
        cpi_in_20_minutes_def minutes_def hours_def Let_def)
  show ?thesis
    using ThreeDAnalyzer_is_valid_signal_iff
      [of DimensionAlignment.BULLISH 1 2 0 "cpi_in_20_minutes 0"]
    by (simp add: ttn minutes_def)
qed

section \<open>Properties of the trailing stop\<close>

lemma update_trailing_stop_assign_active_long:
  assumes "Position.side p = BUY" and "trailing_activated p" and "long_stop_inv p"
  shows "\<exists>p1. update_trailing_stop_assign p price trig = Inr p1 \<and> trailing_activated p1
           \<and> current_stop p \<le> current_stop p1 \<and> long_stop_inv p1"
  using assms
  by (auto simp: update_trailing_stop_assign_def long_stop_inv_def Let_def
      split: option.splits)

lemma update_trailing_stop_assign_activation_long:
  assumes "Position.side p = BUY" and "\<not> trailing_activated p"
    and "trig * 100 \<le> unrealized_pnl_pct p" and "current_stop p \<le> price"
  shows "\<exists>p1. update_trailing_stop_assign p price trig = Inr p1 \<and> trailing_activated p1
           \<and> trailing_distance p1 = Some \<bar>price - current_stop p\<bar>
           \<and> highest_price p1 = Some price
           \<and> current_stop p1 = current_stop p \<and> long_stop_inv p1"
  using assms
  by (auto simp: update_trailing_stop_assign_def long_stop_inv_def Let_def
      split: option.splits)

lemma update_unrealized_pnl_long:
  assumes "Position.side p = BUY" and "0 < entry_price p" and "0 < quantity p"
  shows "update_unrealized_pnl p price
     = (if fits_column 18 8 price
           \<and> fits_column 18 8 ((price - entry_price p) * quantity p)
           \<and> fits_column 8 6 ((price - entry_price p) / entry_price p * 100)
        then Inr (p\<lparr>current_price := Some price,
                    unrealized_pnl := (price - entry_price p) * quantity p,
                    unrealized_pnl_pct := (price - entry_price p) / entry_price p * 100\<rparr>)
        else Inl DataError)"
  using assms by (simp add: update_unrealized_pnl_def Let_def)

lemma long_profit_price:
  assumes "0 < entry" and "0 \<le> trig" and "trig * 100 \<le> (price - entry) / entry * 100"
  shows "entry \<le> (price :: rat)"
proof -
  define x where "x = (price - entry) / entry"
  have "trig * 100 \<le> x * 100"
    unfolding x_def by (rule assms(3))
  then have "0 \<le> x"
    using assms(2) by linarith
  then have "0 \<le> price - entry"
    using assms(1) unfolding x_def by (simp only: zero_le_divide_iff) auto
  then show ?thesis by simp
qed

text \<open>
  C1. For every long position: (a) when trailing is active and
  \<open>current_stop \<le> highest_price - trailing_distance\<close> holds, the statements of
  \<open>update_trailing_stop\<close>, at any price, raise nothing and leave an object whose stop is
  unchanged or larger and which satisfies the relation again; the row becomes that object,
  unless it does not fit its columns and the save raises, leaving the row as it was. (b) For
  a long not yet trailing whose stop is at or below a positive entry price, with a positive
  quantity and a non-negative trigger, as the risk manager updates it: the profit is
  refreshed to \<open>(price - entry_price) / entry_price * 100\<close>, and when that reaches
  \<open>trailing_trigger_pct * 100\<close> the statements activate trailing, set
  \<open>trailing_distance = |current_price - current_stop|\<close> and \<open>highest_price = current_price\<close>,
  keep the stop and establish the relation; the row becomes that object under the same
  proviso.
\<close>

theorem update_trailing_stop_long:
  assumes "Position.side p = BUY"
  shows "(trailing_activated p \<and> long_stop_inv p \<longrightarrow>
            (\<exists>p1. update_trailing_stop_assign p price trig = Inr p1
               \<and> trailing_activated p1
               \<and> current_stop p \<le> current_stop p1
               \<and> long_stop_inv p1
               \<and> update_trailing_stop p price trig = Position_save p1))
       \<and> (\<not> trailing_activated p \<and> current_stop p \<le> entry_price p
            \<and> 0 < entry_price p \<and> 0 < quantity p \<and> 0 \<le> trig \<longrightarrow>
            (let profit = (price - entry_price p) / entry_price p * 100;
                 p0 = p\<lparr>current_price := Some price,
                        unrealized_pnl := (price - entry_price p) * quantity p,
                        unrealized_pnl_pct := profit\<rparr>
             in update_unrealized_pnl p price
                  = (if fits_column 18 8 price
                        \<and> fits_column 18 8 ((price - entry_price p) * quantity p)
                        \<and> fits_column 8 6 profit
                     then Inr p0 else Inl DataError)
                \<and> (trig * 100 \<le> profit \<longrightarrow>
                     (\<exists>p1. update_trailing_stop_assign p0 price trig = Inr p1
                        \<and> trailing_activated p1
                        \<and> trailing_distance p1 = Some \<bar>price - current_stop p\<bar>
                        \<and> highest_price p1 = Some price
                        \<and> current_stop p1 = current_stop p
                        \<and> long_stop_inv p1
                        \<and> update_trailing_stop p0 price trig = Position_save p1))))"
proof (intro conjI impI)
  assume "trailing_activated p \<and> long_stop_inv p"
  then obtain p1 where p1: "update_trailing_stop_assign p price trig = Inr p1"
    and rest: "trailing_activated p1" "current_stop p \<le> current_stop p1" "long_stop_inv p1"
    using update_trailing_stop_assign_active_long [OF assms, of price trig] by blast
  have "update_trailing_stop p price trig = Position_save p1"
    by (simp add: update_trailing_stop_def p1)
  with p1 rest
  show "\<exists>p1. update_trailing_stop_assign p price trig = Inr p1
           \<and> trailing_activated p1
           \<and> current_stop p \<le> current_stop p1
           \<and> long_stop_inv p1
           \<and> update_trailing_stop p price trig = Position_save p1"
    by blast
next
  assume hyp: "\<not> trailing_activated p \<and> current_stop p \<le> entry_price p
            \<and> 0 < entry_price p \<and> 0 < quantity p \<and> 0 \<le> trig"
  define profit where "profit = (price - entry_price p) / entry_price p * 100"
  define p0 where "p0 = p\<lparr>current_price := Some price,
      unrealized_pnl := (price - entry_price p) * quantity p,
      unrealized_pnl_pct := profit\<rparr>"
  have refresh: "update_unrealized_pnl p price
      = (if fits_column 18 8 price
            \<and> fits_column 18 8 ((price - entry_price p) * quantity p)
            \<and> fits_column 8 6 profit
         then Inr p0 else Inl DataError)"
    using update_unrealized_pnl_long [OF assms, of price] hyp
    by (simp add: profit_def p0_def)
  have activation: "\<exists>p1. update_trailing_stop_assign p0 price trig = Inr p1
           \<and> trailing_activated p1
           \<and> trailing_distance p1 = Some \<bar>price - current_stop p\<bar>
           \<and> highest_price p1 = Some price
           \<and> current_stop p1 = current_stop p
           \<and> long_stop_inv p1
           \<and> update_trailing_stop p0 price trig = Position_save p1"
    if reached: "trig * 100 \<le> profit"
  proof -
    have "entry_price p \<le> price"
      using long_profit_price [of "entry_price p" trig price] hyp reached
      by (simp add: profit_def)
    then have below: "current_stop p0 \<le> price"
      using hyp by (simp add: p0_def)
    have side0: "Position.side p0 = BUY" and off: "\<not> trailing_activated p0"
      and pct: "trig * 100 \<le> unrealized_pnl_pct p0"
      using assms hyp reached by (simp_all add: p0_def)
    obtain p1 where p1: "update_trailing_stop_assign p0 price trig = Inr p1"
      and rest: "trailing_activated p1"
        "trailing_distance p1 = Some \<bar>price - current_stop p0\<bar>"
        "highest_price p1 = Some price" "current_stop p1 = current_stop p0"
        "long_stop_inv p1"
      using update_trailing_stop_assign_activation_long [OF side0 off pct below] by blast
    have "update_trailing_stop p0 price trig = Position_save p1"
      by (simp add: update_trailing_stop_def p1)
    moreover have "current_stop p0 = current_stop p"
      by (simp add: p0_def)
    ultimately show ?thesis
      using p1 rest by auto
  qed
  show "let profit = (price - entry_price p) / entry_price p * 100;
            p0 = p\<lparr>current_price := Some price,
                   unrealized_pnl := (price - entry_price p) * quantity p,
                   unrealized_pnl_pct := profit\<rparr>
        in update_unrealized_pnl p price
             = (if fits_column 18 8 price
                   \<and> fits_column 18 8 ((price - entry_price p) * quantity p)
                   \<and> fits_column 8 6 profit
                then Inr p0 else Inl DataError)
           \<and> (trig * 100 \<le> profit \<longrightarrow>
                (\<exists>p1. update_trailing_stop_assign p0 price trig = Inr p1
                   \<and> trailing_activated p1
                   \<and> trailing_distance p1 = Some \<bar>price - current_stop p\<bar>
                   \<and> highest_price p1 = Some price
                   \<and> current_stop p1 = current_stop p
                   \<and> long_stop_inv p1
                   \<and> update_trailing_stop p0 price trig = Position_save p1))"
    unfolding Let_def
    using refresh activation unfolding profit_def p0_def by blast
qed

text \<open>
  The trailing scenario of the specification: entry 100, stop 98, trigger 2 percent. At the
  price 102 the profit is 2 percent and trailing starts with distance 4 and high-water mark
  102, the stop staying at 98; at 110 the mark is 110 and the stop 106; at 107 nothing moves.
\<close>

theorem update_trailing_stop_long_witness:
  "update_position scenario_long 102 (2 / 100) = (None, trailing_long)
   \<and> long_stop_inv trailing_long
   \<and> update_trailing_stop trailing_long 110 (2 / 100)
       = Inr (trailing_long\<lparr>highest_price := Some 110, current_stop := 106\<rparr>)
   \<and> long_stop_inv (trailing_long\<lparr>highest_price := Some 110, current_stop := 106\<rparr>)
   \<and> update_trailing_stop (trailing_long\<lparr>highest_price := Some 110, current_stop := 106\<rparr>)
         107 (2 / 100)
       = Inr (trailing_long\<lparr>highest_price := Some 110, current_stop := 106\<rparr>)"
proof -
  have side: "Position.side scenario_long = BUY" "Position.side trailing_long = BUY"
    "Position.side (trailing_long\<lparr>highest_price := Some 110, current_stop := 106\<rparr>) = BUY"
    by (simp_all add: scenario_long_def profitable_long_def trailing_long_def fresh_long_def)
  have fresh: "\<not> trailing_activated scenario_long
      \<and> current_stop scenario_long \<le> entry_price scenario_long
      \<and> 0 < entry_price scenario_long \<and> 0 < quantity scenario_long \<and> (0::rat) \<le> 2 / 100"
    by (simp add: scenario_long_def fresh_long_def)
  have active: "trailing_activated trailing_long \<and> long_stop_inv trailing_long"
    "trailing_activated (trailing_long\<lparr>highest_price := Some 110, current_stop := 106\<rparr>)
      \<and> long_stop_inv (trailing_long\<lparr>highest_price := Some 110, current_stop := 106\<rparr>)"
    by (simp_all add: trailing_long_def profitable_long_def scenario_long_def fresh_long_def
        long_stop_inv_def)
  note defs = scenario_long_def profitable_long_def trailing_long_def fresh_long_def
    update_position_def update_unrealized_pnl_def update_trailing_stop_def
    update_trailing_stop_assign_def Position_save_def Position_fits_def fits_column_def
    fits_optional_def long_stop_inv_def Let_def
  from update_trailing_stop_long [OF side(1), where price = 102 and trig = "2 / 100"] fresh
  have first: "update_position scenario_long 102 (2 / 100) = (None, trailing_long)"
    by (simp add: defs)
  from update_trailing_stop_long [OF side(2), where price = 110 and trig = "2 / 100"] active(1)
  have second: "update_trailing_stop trailing_long 110 (2 / 100)
      = Inr (trailing_long\<lparr>highest_price := Some 110, current_stop := 106\<rparr>)"
    by (simp add: defs)
  from update_trailing_stop_long [OF side(3), where price = 107 and trig = "2 / 100"] active(2)
  have third: "update_trailing_stop
        (trailing_long\<lparr>highest_price := Some 110, current_stop := 106\<rparr>) 107 (2 / 100)
      = Inr (trailing_long\<lparr>highest_price := Some 110, current_stop := 106\<rparr>)"
    by (simp add: defs)
  from first second third active show ?thesis
    by simp
qed

text \<open>
  \<open>create_position_from_trade\<close> opens a position with the stop \<open>get_stop_loss_price\<close> gives
  without a range: for a long, one percent below the entry price, hence not above it.
\<close>

lemma created_long_stop_below_entry:
  "0 < entry \<Longrightarrow> get_stop_loss_price entry BUY None 2 \<le> entry"
  by (simp add: get_stop_loss_price_def)

section \<open>Properties of the daily risk state\<close>

lemma update_balance_high_water:
  "current_balance (update_balance_assign rs b) \<le> highest_balance (update_balance_assign rs b)"
  by (simp add: update_balance_assign_def Let_def)

lemma update_balance_drawdown_nonneg:
  assumes "0 \<le> drawdown_pct rs"
  shows "0 \<le> drawdown_pct (update_balance_assign rs b)"
  using assms by (auto simp: update_balance_assign_def Let_def zero_le_divide_iff)

lemma update_balance_drawdown_le_100:
  assumes "drawdown_pct rs \<le> 100" and "0 \<le> b"
  shows "drawdown_pct (update_balance_assign rs b) \<le> 100"
  using assms by (auto simp: update_balance_assign_def Let_def field_simps)

lemma store_balance_cases:
  "store_balance rs b = rs \<or> store_balance rs b = update_balance_assign rs b"
  by (simp add: store_balance_def update_balance_def)

lemma foldl_update_balance_inv:
  assumes "current_balance rs \<le> highest_balance rs" and "0 \<le> drawdown_pct rs"
  shows "current_balance (foldl update_balance_assign rs bs)
           \<le> highest_balance (foldl update_balance_assign rs bs)
         \<and> 0 \<le> drawdown_pct (foldl update_balance_assign rs bs)"
  using assms
proof (induction bs arbitrary: rs)
  case Nil
  then show ?case by simp
next
  case (Cons b bs)
  show ?case
    using Cons.IH [of "update_balance_assign rs b"] Cons.prems
    by (simp add: update_balance_high_water update_balance_drawdown_nonneg)
qed

lemma foldl_update_balance_le_100:
  assumes "drawdown_pct rs \<le> 100" and "\<forall>b\<in>set bs. 0 \<le> b"
  shows "drawdown_pct (foldl update_balance_assign rs bs) \<le> 100"
  using assms
proof (induction bs arbitrary: rs)
  case Nil
  then show ?case by simp
next
  case (Cons b bs)
  show ?case
    using Cons.IH [of "update_balance_assign rs b"] Cons.prems
    by (simp add: update_balance_drawdown_le_100)
qed

lemma foldl_store_balance_inv:
  assumes "current_balance rs \<le> highest_balance rs" and "0 \<le> drawdown_pct rs"
  shows "current_balance (foldl store_balance rs bs)
           \<le> highest_balance (foldl store_balance rs bs)
         \<and> 0 \<le> drawdown_pct (foldl store_balance rs bs)"
  using assms
proof (induction bs arbitrary: rs)
  case Nil
  then show ?case by simp
next
  case (Cons b bs)
  have "current_balance (store_balance rs b) \<le> highest_balance (store_balance rs b)
      \<and> 0 \<le> drawdown_pct (store_balance rs b)"
    using store_balance_cases [of rs b] Cons.prems
      update_balance_high_water [of rs b] update_balance_drawdown_nonneg [of rs b]
    by auto
  then show ?case
    using Cons.IH [of "store_balance rs b"] by simp
qed

lemma foldl_store_balance_le_100:
  assumes "drawdown_pct rs \<le> 100" and "\<forall>b\<in>set bs. 0 \<le> b"
  shows "drawdown_pct (foldl store_balance rs bs) \<le> 100"
  using assms
proof (induction bs arbitrary: rs)
  case Nil
  then show ?case by simp
next
  case (Cons b bs)
  have "drawdown_pct (store_balance rs b) \<le> 100"
    using store_balance_cases [of rs b] Cons.prems
      update_balance_drawdown_le_100 [of rs b]
    by auto
  then show ?case
    using Cons.IH [of "store_balance rs b"] Cons.prems(2) by simp
qed

lemma created_risk_state:
  "current_balance (fst (get_or_create_today today starting Map.empty))
     = highest_balance (fst (get_or_create_today today starting Map.empty))
   \<and> drawdown_pct (fst (get_or_create_today today starting Map.empty)) = 0"
  by (simp add: get_or_create_today_def Let_def)

text \<open>
  C8. For the row that \<open>get_or_create_today\<close> creates, with any starting balance, and any
  sequence of \<open>update_balance\<close> calls: after every call the high-water mark is at least the
  current balance and the drawdown percentage is at least 0; it is at most 100 when the
  balances passed are non-negative, as the free balance of an exchange account is. This
  holds of the object each call leaves, whether or not its save succeeds (first three
  conjuncts), and of the stored row, which a failed save leaves as it was (last three).
\<close>

theorem risk_state_invariant:
  "current_balance (foldl update_balance_assign (fst (get_or_create_today today starting Map.empty)) bs)
     \<le> highest_balance (foldl update_balance_assign (fst (get_or_create_today today starting Map.empty)) bs)
   \<and> 0 \<le> drawdown_pct (foldl update_balance_assign (fst (get_or_create_today today starting Map.empty)) bs)
   \<and> ((\<forall>b\<in>set bs. 0 \<le> b) \<longrightarrow>
        drawdown_pct (foldl update_balance_assign (fst (get_or_create_today today starting Map.empty)) bs)
          \<le> 100)
   \<and> current_balance (foldl store_balance (fst (get_or_create_today today starting Map.empty)) bs)
     \<le> highest_balance (foldl store_balance (fst (get_or_create_today today starting Map.empty)) bs)
   \<and> 0 \<le> drawdown_pct (foldl store_balance (fst (get_or_create_today today starting Map.empty)) bs)
   \<and> ((\<forall>b\<in>set bs. 0 \<le> b) \<longrightarrow>
        drawdown_pct (foldl store_balance (fst (get_or_create_today today starting Map.empty)) bs)
          \<le> 100)"
  using foldl_update_balance_inv [of "fst (get_or_create_today today starting Map.empty)" bs]
    foldl_update_balance_le_100 [of "fst (get_or_create_today today starting Map.empty)" bs]
    foldl_store_balance_inv [of "fst (get_or_create_today today starting Map.empty)" bs]
    foldl_store_balance_le_100 [of "fst (get_or_create_today today starting Map.empty)" bs]
    created_risk_state [of today starting]
  by simp

theorem risk_state_invariant_witness:
  "current_balance (foldl update_balance_assign
       (fst (get_or_create_today 0 (Some 10000) Map.empty)) [10500, 9960]) = 9960
   \<and> highest_balance (foldl update_balance_assign
       (fst (get_or_create_today 0 (Some 10000) Map.empty)) [10500, 9960]) = 10500
   \<and> 0 \<le> drawdown_pct (foldl update_balance_assign
       (fst (get_or_create_today 0 (Some 10000) Map.empty)) [10500, 9960])
   \<and> drawdown_pct (foldl update_balance_assign
       (fst (get_or_create_today 0 (Some 10000) Map.empty)) [10500, 9960]) \<le> 100
   \<and> current_balance (foldl store_balance
       (fst (get_or_create_today 0 (Some 10000) Map.empty)) [10500, 0]) = 10500
   \<and> highest_balance (foldl store_balance
       (fst (get_or_create_today 0 (Some 10000) Map.empty)) [10500, 0]) = 10500
   \<and> drawdown_pct (foldl store_balance
       (fst (get_or_create_today 0 (Some 10000) Map.empty)) [10500, 0]) \<le> 100"
proof -
  have nonneg: "\<forall>b\<in>set [10500, 9960 :: rat]. 0 \<le> b" "\<forall>b\<in>set [10500, 0 :: rat]. 0 \<le> b"
    by simp_all
  note defs = get_or_create_today_def update_balance_assign_def update_balance_def
    store_balance_def RiskState_fits_def fits_column_def Let_def
  have vals: "current_balance (foldl update_balance_assign
       (fst (get_or_create_today 0 (Some 10000) Map.empty)) [10500, 9960]) = 9960"
    "highest_balance (foldl update_balance_assign
       (fst (get_or_create_today 0 (Some 10000) Map.empty)) [10500, 9960]) = 10500"
    "current_balance (foldl store_balance
       (fst (get_or_create_today 0 (Some 10000) Map.empty)) [10500, 0]) = 10500"
    "highest_balance (foldl store_balance
       (fst (get_or_create_today 0 (Some 10000) Map.empty)) [10500, 0]) = 10500"
    by (simp_all add: defs)
  from risk_state_invariant [of 0 "Some 10000" "[10500, 9960]"]
    risk_state_invariant [of 0 "Some 10000" "[10500, 0]"] nonneg vals
  show ?thesis by simp
qed

section \<open>Properties of the circuit breaker\<close>

lemma check_circuit_breaker_stored:
  assumes "resolve_balance current client = Inr (Some b)"
    and "RiskState_fits (update_balance_assign (fst (get_or_create_today today None table)) b)"
  shows "fst (fst (check_circuit_breaker today (Inr table) current client daily_drawdown_limit))
     = (system_status (fst (get_or_create_today today None table)) = PAUSED
        \<or> daily_drawdown_limit * 100
            \<le> drawdown_pct
                 (update_balance_assign (fst (get_or_create_today today None table)) b))"
proof -
  obtain rs table1 where row: "get_or_create_today today None table = (rs, table1)"
    by (cases "get_or_create_today today None table")
  show ?thesis
    using assms by (simp add: check_circuit_breaker_def update_balance_def row Let_def)
qed

lemma check_circuit_breaker_not_stored:
  assumes "resolve_balance current client = Inr (Some b)"
    and "\<not> RiskState_fits (update_balance_assign (fst (get_or_create_today today None table)) b)"
  shows "fst (fst (check_circuit_breaker today (Inr table) current client daily_drawdown_limit))
     = (system_status (fst (get_or_create_today today None table)) = PAUSED)"
proof -
  obtain rs table1 where row: "get_or_create_today today None table = (rs, table1)"
    by (cases "get_or_create_today today None table")
  show ?thesis
    using assms by (simp add: check_circuit_breaker_def update_balance_def row Let_def)
qed

text \<open>
  The scenario of the specification: high-water mark 10 500, balance 9 960, limit 5 percent.
  The drawdown is 36/7 percent, about 5.14, and the breaker triggers.
\<close>

lemma check_circuit_breaker_scenario:
  "check_circuit_breaker 0 (Inr [0 \<mapsto> scenario_day]) (Some 9960) None (5 / 100)
     = ((True, DrawdownExceeded (36 / 7) 5),
        Inr [0 \<mapsto> update_balance_assign scenario_day 9960])"
proof -
  have dd: "drawdown_pct (update_balance_assign scenario_day 9960) = 36 / 7"
    by (simp add: scenario_day_def get_or_create_today_def update_balance_assign_def Let_def)
  have fits: "RiskState_fits (update_balance_assign scenario_day 9960)"
    by (simp add: scenario_day_def get_or_create_today_def update_balance_assign_def Let_def
        RiskState_fits_def fits_column_def)
  have active: "system_status scenario_day = ACTIVE"
    by (simp add: scenario_day_def get_or_create_today_def update_balance_assign_def Let_def)
  show ?thesis
    by (simp add: check_circuit_breaker_def get_or_create_today_def resolve_balance_def
        update_balance_def fits dd active)
qed

text \<open>
  C2. The claim: \<open>should_trigger\<close> is true exactly when today's row is PAUSED or the drawdown
  percentage after the update is at least \<open>daily_drawdown_limit * 100\<close>. The code on the
  scenario's day, high-water mark 10 500 and limit 5 percent, when the balance the exchange
  returns is 0: the drawdown percentage the update computes is 100, the row with it does not
  fit its columns, the save raises, and the handler answers \<open>False\<close> with the row unchanged.
\<close>

theorem circuit_breaker_misses_total_loss:
  "system_status scenario_day = ACTIVE
   \<and> highest_balance scenario_day = 10500
   \<and> drawdown_pct (update_balance_assign scenario_day 0) = 100
   \<and> (5 / 100 * 100 :: rat) \<le> drawdown_pct (update_balance_assign scenario_day 0)
   \<and> update_balance scenario_day 0 = Inl DataError
   \<and> check_circuit_breaker 0 (Inr [0 \<mapsto> scenario_day]) (Some 0) None (5 / 100)
       = ((False, ErrorReason DataError), Inr [0 \<mapsto> scenario_day])"
proof -
  note defs = scenario_day_def get_or_create_today_def update_balance_assign_def Let_def
  have a: "system_status scenario_day = ACTIVE" "highest_balance scenario_day = 10500"
    "drawdown_pct (update_balance_assign scenario_day 0) = 100"
    by (simp_all add: defs)
  have b: "update_balance scenario_day 0 = Inl DataError"
    by (simp add: update_balance_def RiskState_fits_def fits_column_def a(3))
  have c: "check_circuit_breaker 0 (Inr [0 \<mapsto> scenario_day]) (Some 0) None (5 / 100)
       = ((False, ErrorReason DataError), Inr [0 \<mapsto> scenario_day])"
    by (simp add: check_circuit_breaker_def get_or_create_today_def resolve_balance_def a(1) b)
  from a b c show ?thesis by simp
qed

lemma check_circuit_breaker_no_balance:
  "fst (fst (check_circuit_breaker today (Inr table) None None daily_drawdown_limit))
     = (system_status (fst (get_or_create_today today None table)) = PAUSED)"
proof -
  obtain rs table1 where row: "get_or_create_today today None table = (rs, table1)"
    by (cases "get_or_create_today today None table")
  show ?thesis
    by (simp add: check_circuit_breaker_def resolve_balance_def row Let_def)
qed

section \<open>Properties of the slippage check\<close>

lemma ladder_cost_zero:
  "wf_levels levels \<Longrightarrow> ladder_cost levels 0 = 0"
  by (induction levels) (auto simp: wf_levels_def min_def)

lemma ladder_quantity_nonneg:
  "wf_levels levels \<Longrightarrow> 0 \<le> ladder_quantity levels"
  by (induction levels) (auto simp: wf_levels_def ladder_quantity_def)

lemma walk_levels_eq:
  assumes "wf_levels levels" and "0 \<le> remaining"
  shows "walk_levels levels remaining cost
     = (remaining - min remaining (ladder_quantity levels),
        cost + ladder_cost levels remaining)"
  using assms
proof (induction levels arbitrary: remaining cost)
  case Nil
  then show ?case by (simp add: ladder_quantity_def)
next
  case (Cons level levels)
  obtain price qty where level: "level = (price, qty)"
    by (cases level)
  have wf: "wf_levels levels" and qty: "0 \<le> qty"
    using Cons.prems(1) by (simp_all add: wf_levels_def level)
  have rest: "0 \<le> ladder_quantity levels"
    by (rule ladder_quantity_nonneg [OF wf])
  have total_qty: "ladder_quantity ((price, qty) # levels) = qty + ladder_quantity levels"
    by (simp add: ladder_quantity_def)
  show ?case
  proof (cases "remaining \<le> 0")
    case True
    then have zero: "remaining = 0"
      using Cons.prems(2) by simp
    show ?thesis
      using qty rest by (simp add: zero level total_qty ladder_cost_zero [OF wf])
  next
    case False
    have step: "0 \<le> remaining - min remaining qty"
      by simp
    have "remaining - min remaining qty
            - min (remaining - min remaining qty) (ladder_quantity levels)
          = remaining - min remaining (qty + ladder_quantity levels)"
      using qty rest by (simp add: min_def)
    with False show ?thesis
      by (simp add: level total_qty Let_def Cons.IH [OF wf step] add.assoc)
  qed
qed

lemma walk_levels_remaining:
  assumes "wf_levels levels" and "0 \<le> q"
  shows "(0 < fst (walk_levels levels q 0)) = (ladder_quantity levels < q)"
  using ladder_quantity_nonneg [OF assms(1)]
  by (simp add: walk_levels_eq [OF assms] min_def)

text \<open>
  C5. For a requested quantity \<open>q > 0\<close> and a book whose opposite side (asks for BUY, bids
  for SELL) has positive prices and non-negative quantities: if the side is empty or its
  total quantity is less than \<open>q\<close>, the check reports \<open>sufficient_liquidity = False\<close>;
  otherwise it reports sufficient liquidity, \<open>estimated_avg_price = total_cost / q\<close> for the
  cost of filling \<open>q\<close> from the top, \<open>slippage_pct = |avg - best| / best * 100\<close> with \<open>best\<close> the
  price of the first level, and \<open>is_acceptable\<close> exactly when
  \<open>slippage_pct \<le> max_slippage_pct * 100\<close>.
\<close>

theorem check_slippage_spec:
  assumes "0 < q"
    and "fetch_order_book given redis_cache binance_client = Inr (Some ob)"
    and "levels = (if sd = BUY then asks ob else bids ob)"
    and "wf_levels levels"
  shows "(case levels of
            [] \<Rightarrow> \<not> sufficient_liquidity
                     (check_slippage sd q given redis_cache binance_client max_slippage_pct)
          | (best, _) # _ \<Rightarrow>
              if ladder_quantity levels < q
              then \<not> sufficient_liquidity
                     (check_slippage sd q given redis_cache binance_client max_slippage_pct)
              else check_slippage sd q given redis_cache binance_client max_slippage_pct
                 = \<lparr>estimated_slippage_pct = \<bar>ladder_cost levels q / q - best\<bar> / best * 100,
                    is_acceptable =
                      (\<bar>ladder_cost levels q / q - best\<bar> / best * 100 \<le> max_slippage_pct * 100),
                    sufficient_liquidity = True,
                    estimated_avg_price = ladder_cost levels q / q,
                    reason =
                      (if \<bar>ladder_cost levels q / q - best\<bar> / best * 100
                            \<le> max_slippage_pct * 100
                       then SlippageAcceptable
                       else SlippageExceeds (\<bar>ladder_cost levels q / q - best\<bar> / best * 100)
                              (max_slippage_pct * 100))\<rparr>)"
proof (cases levels)
  case Nil
  then show ?thesis
    using assms(2,3) by (simp add: check_slippage_def slippage_failure_def)
next
  case (Cons level rest)
  obtain best qty where level: "level = (best, qty)"
    by (cases level)
  have shape: "levels = (best, qty) # rest"
    by (simp add: Cons level)
  have lv: "(if sd = BUY then asks ob else bids ob) = (best, qty) # rest"
    using assms(3) shape by simp
  have best: "0 < best"
    using assms(4) by (simp add: wf_levels_def shape)
  have q0: "0 \<le> q"
    using assms(1) by simp
  have walk: "walk_levels ((best, qty) # rest) q 0
      = (q - min q (ladder_quantity ((best, qty) # rest)), ladder_cost ((best, qty) # rest) q)"
    using walk_levels_eq [OF assms(4) q0, of 0] unfolding shape
    by (simp del: walk_levels.simps ladder_cost.simps)
  show ?thesis
  proof (cases "ladder_quantity ((best, qty) # rest) < q")
    case True
    then have "\<not> sufficient_liquidity
        (check_slippage sd q given redis_cache binance_client max_slippage_pct)"
      by (simp add: check_slippage_def assms(2) lv walk Let_def slippage_failure_def
          del: walk_levels.simps ladder_cost.simps)
    then show ?thesis
      using True unfolding shape by (simp del: ladder_cost.simps)
  next
    case False
    then have "check_slippage sd q given redis_cache binance_client max_slippage_pct
        = \<lparr>estimated_slippage_pct
             = \<bar>ladder_cost ((best, qty) # rest) q / q - best\<bar> / best * 100,
           is_acceptable =
             (\<bar>ladder_cost ((best, qty) # rest) q / q - best\<bar> / best * 100
                \<le> max_slippage_pct * 100),
           sufficient_liquidity = True,
           estimated_avg_price = ladder_cost ((best, qty) # rest) q / q,
           reason =
             (if \<bar>ladder_cost ((best, qty) # rest) q / q - best\<bar> / best * 100
                   \<le> max_slippage_pct * 100
              then SlippageAcceptable
              else SlippageExceeds
                     (\<bar>ladder_cost ((best, qty) # rest) q / q - best\<bar> / best * 100)
                     (max_slippage_pct * 100))\<rparr>"
      using assms(1) best
      by (simp add: check_slippage_def assms(2) lv walk Let_def
          del: walk_levels.simps ladder_cost.simps)
    then show ?thesis
      using False unfolding shape by (simp del: ladder_cost.simps)
  qed
qed

text \<open>
  The scenario of the specification: buying 1.5 against asks of 0.5 at 100, 0.5 at 100.5 and
  10 at 101 costs 100.5 on average, a slippage of 0.5 percent, refused under the limit of
  0.2 percent.
\<close>

theorem check_slippage_spec_witness:
  "check_slippage BUY (3 / 2) (Some scenario_book) None None (2 / 1000)
     = \<lparr>estimated_slippage_pct = 1 / 2, is_acceptable = False, sufficient_liquidity = True,
        estimated_avg_price = 201 / 2, reason = SlippageExceeds (1 / 2) (1 / 5)\<rparr>"
proof -
  have q: "(0::rat) < 3 / 2"
    by simp
  have fetch: "fetch_order_book (Some scenario_book) None None = Inr (Some scenario_book)"
    by (simp add: fetch_order_book_def)
  have levels: "asks scenario_book = (if BUY = BUY then asks scenario_book else bids scenario_book)"
    by simp
  have wf: "wf_levels (asks scenario_book)"
    by (simp add: wf_levels_def scenario_book_def)
  from check_slippage_spec [OF q fetch levels wf, of "2 / 1000"]
  show ?thesis
    by (simp add: scenario_book_def ladder_quantity_def)
qed

section \<open>Properties of the trading gate\<close>

lemma is_trading_allowed_handler:
  "is_trading_allowed_try today redis_cache db = Inl err \<Longrightarrow>
     is_trading_allowed today redis_cache db = (True, [])"
  by (simp add: is_trading_allowed_def)

text \<open>
  C10. Whichever step of the check raises, \<open>is_trading_allowed\<close> answers \<open>(True, "")\<close>: the
  first read of the cache; the second read of the cache, made when the first one reports a
  status other than ACTIVE; and the lookup of today's risk state, made when there is no cache
  or the cache reports ACTIVE.
\<close>

theorem is_trading_allowed_fails_open:
  "(redis_cache = Some (Inl err, second_read) \<longrightarrow>
      is_trading_allowed today redis_cache db = (True, []))
   \<and> (redis_cache = Some (first_read, Inl err) \<and> is_trading_active first_read = Inr False \<longrightarrow>
      is_trading_allowed today redis_cache db = (True, []))
   \<and> (db = Inl err
        \<and> (redis_cache = None
           \<or> (\<exists>second_read. redis_cache = Some (first_read, second_read)
                \<and> is_trading_active first_read = Inr True)) \<longrightarrow>
      is_trading_allowed today redis_cache db = (True, []))"
  by (auto simp: is_trading_allowed_def is_trading_allowed_try_def is_trading_active_def
      get_system_status_def Let_def)

theorem is_trading_allowed_fails_open_witness:
  "is_trading_allowed 0 (Some (Inl RedisError, Inl RedisError)) (Inr Map.empty) = (True, [])
   \<and> is_trading_allowed 0 (Some (Inr (Some paused_status), Inl RedisError)) (Inr Map.empty)
       = (True, [])
   \<and> is_trading_allowed 0 None (Inl DatabaseError) = (True, [])"
proof -
  have paused: "is_trading_active (Inr (Some paused_status)) = Inr False"
    by (simp add: is_trading_active_def get_system_status_def paused_status_def)
  from is_trading_allowed_fails_open
    [of "Some (Inl RedisError, Inl RedisError)" RedisError "Inl RedisError" 0 "Inr Map.empty"]
  have a: "is_trading_allowed 0 (Some (Inl RedisError, Inl RedisError)) (Inr Map.empty)
      = (True, [])"
    by simp
  from is_trading_allowed_fails_open
    [of "Some (Inr (Some paused_status), Inl RedisError)" RedisError "Inl RedisError" 0
      "Inr Map.empty" "Inr (Some paused_status)"] paused
  have b: "is_trading_allowed 0 (Some (Inr (Some paused_status), Inl RedisError))
      (Inr Map.empty) = (True, [])"
    by simp
  from is_trading_allowed_fails_open
    [of None DatabaseError "Inl RedisError" 0 "Inl DatabaseError"]
  have c: "is_trading_allowed 0 None (Inl DatabaseError) = (True, [])"
    by simp
  from a b c show ?thesis by simp
qed

lemma is_trading_allowed_paused_cache:
  "is_trading_allowed 0 (Some (Inr (Some paused_status), Inr (Some paused_status)))
     (Inr Map.empty) = (False, ''Daily drawdown'')"
  by (simp add: is_trading_allowed_def is_trading_allowed_try_def is_trading_active_def
      get_system_status_def paused_status_def)

section \<open>Properties of closing a position\<close>

lemma close_position_rejected:
  assumes "positions w position_id = Some pos" and "Position.status pos = OPEN"
    and "lookup_fault env = None" and "response env = Inl err"
  shows "close_position env now position_id why w = (CloseError err, w)"
  using assms by (simp add: close_position_def Let_def)

lemma close_position_closed_noop:
  assumes "positions w position_id = Some pos" and "Position.status pos = CLOSED"
  shows "close_position env now position_id why w
     = ((case lookup_fault env of None \<Rightarrow> AlreadyClosed | Some err \<Rightarrow> CloseError err), w)"
  using assms by (simp add: close_position_def split: option.splits)

text \<open>
  C9, as stated: two calls in sequence on a position that is OPEN at the first place
  exactly one exit market order, the first call closes the position and the second changes
  nothing. Two runs on the open long 7 where this fails. When the exchange rejects the order
  of the first call, that call leaves everything as it was, and it is the second call that
  places the order and closes the position. When the exchange accepts the order of the
  first call under an id the \<open>Trade\<close> table already holds, the insert of the exit trade
  raises after the order is placed, the position stays OPEN, and the second call places a
  second market order.
\<close>

theorem close_position_twice_counterexample:
  "close_position rejecting 1000 7 ''STOP_LOSS'' one_open_long
     = (CloseError BinanceAPIException, one_open_long)
   \<and> fst (close_position (accepting 9001) 2000 7 ''STOP_LOSS'' one_open_long)
       = CloseSuccess 7 ''STOP_LOSS'' 9001
   \<and> exchange_orders (snd (close_position (accepting 9001) 2000 7 ''STOP_LOSS'' one_open_long))
       = [(9001, MarketOrder ''BTCUSDT'' SELL 1)]
   \<and> fst (close_position (accepting 4242) 1000 7 ''STOP_LOSS'' one_open_long)
       = CloseError IntegrityError
   \<and> positions (snd (close_position (accepting 4242) 1000 7 ''STOP_LOSS'' one_open_long)) 7
       = Some fresh_long
   \<and> exchange_orders
       (snd (close_position (accepting 4243) 2000 7 ''STOP_LOSS''
          (snd (close_position (accepting 4242) 1000 7 ''STOP_LOSS'' one_open_long))))
       = [(4242, MarketOrder ''BTCUSDT'' SELL 1), (4243, MarketOrder ''BTCUSDT'' SELL 1)]"
  by (simp add: close_position_def one_open_long_def fresh_long_def accepting_def
      rejecting_def Trade_fits_def Position_fits_def fits_column_def fits_optional_def Let_def)

text \<open>
  C9, amended. Two calls of \<open>close_position\<close> in sequence on a position that is OPEN at the
  first, where during the first call the database is reached, the exchange accepts the
  market order under an order id not yet in the \<open>Trade\<close> table, and the rows fit their
  columns (the position's row does, and the reason has at most 50 characters): the first
  call places one market order on the opposite side for the position's quantity, inserts one
  PENDING exit trade, and marks the position CLOSED with the reason and the time of the
  call; it answers success unless handing over the monitor task fails. The second call,
  whatever its surroundings, places no order, inserts no trade and leaves everything as the
  first call left it; it answers \<open>already_closed\<close> when it can look the position up.
\<close>

theorem close_position_twice:
  assumes "positions w position_id = Some pos"
    and "Position.status pos = OPEN"
    and "Position_fits pos"
    and "length why \<le> 50"
    and "lookup_fault env = None"
    and "response env = Inr order_id"
    and "insert_fault env = None"
    and "save_fault env = None"
    and "order_id \<notin> set (map (binance_order_id \<circ> snd) (trades w))"
  shows "(let first = close_position env now position_id why w;
              second = close_position env' now' position_id why' (snd first)
          in fst first
               = (case enqueue_fault env of
                    None \<Rightarrow> CloseSuccess position_id why order_id
                  | Some err \<Rightarrow> CloseError err)
             \<and> positions (snd first) position_id
                 = Some (pos\<lparr>exit_trade := Some (Suc (trade_sequence w)),
                              Position.status := CLOSED,
                              close_reason := why,
                              closed_at := Some now\<rparr>)
             \<and> exchange_orders (snd first)
                 = exchange_orders w @
                     [(order_id,
                       MarketOrder (Position.symbol pos)
                         (if Position.side pos = BUY then SELL else BUY) (quantity pos))]
             \<and> trades (snd first)
                 = trades w @
                     [(Suc (trade_sequence w),
                       \<lparr>binance_order_id = order_id,
                        symbol = Position.symbol pos,
                        side = (if Position.side pos = BUY then SELL else BUY),
                        order_type = ''MARKET'',
                        requested_quantity = quantity pos,
                        status = PENDING,
                        macro_context = ''Position close: '' @ why\<rparr>)]
             \<and> fst second
                 = (case lookup_fault env' of
                      None \<Rightarrow> AlreadyClosed
                    | Some err \<Rightarrow> CloseError err)
             \<and> snd second = snd first)"
proof -
  define exit_side where "exit_side = (if Position.side pos = BUY then SELL else BUY)"
  define new_trade where "new_trade =
      \<lparr>binance_order_id = order_id, symbol = Position.symbol pos, side = exit_side,
       order_type = ''MARKET'', requested_quantity = quantity pos, status = PENDING,
       macro_context = ''Position close: '' @ why\<rparr>"
  define pos' where "pos' = pos\<lparr>exit_trade := Some (Suc (trade_sequence w)),
      Position.status := CLOSED, close_reason := why, closed_at := Some now\<rparr>"
  have trade_fits: "Trade_fits new_trade"
    using assms(3,4) by (simp add: Trade_fits_def new_trade_def Position_fits_def)
  have pos_fits: "Position_fits pos'"
    using assms(3,4) by (simp add: Position_fits_def pos'_def)
  have closed: "Position.status pos' = CLOSED"
    by (simp add: pos'_def)
  have run: "close_position env now position_id why w
      = (case enqueue_fault env of
           None \<Rightarrow>
             (CloseSuccess position_id why order_id,
              w\<lparr>exchange_orders := exchange_orders w @
                   [(order_id, MarketOrder (Position.symbol pos) exit_side (quantity pos))],
                trade_sequence := Suc (trade_sequence w),
                trades := trades w @ [(Suc (trade_sequence w), new_trade)],
                positions := (positions w)(position_id \<mapsto> pos'),
                monitor_queue := monitor_queue w @ [Suc (trade_sequence w)]\<rparr>)
         | Some err \<Rightarrow>
             (CloseError err,
              w\<lparr>exchange_orders := exchange_orders w @
                   [(order_id, MarketOrder (Position.symbol pos) exit_side (quantity pos))],
                trade_sequence := Suc (trade_sequence w),
                trades := trades w @ [(Suc (trade_sequence w), new_trade)],
                positions := (positions w)(position_id \<mapsto> pos')\<rparr>))"
    using assms(1,2,5,6,7,8,9) trade_fits pos_fits
    unfolding exit_side_def new_trade_def pos'_def
    by (simp add: close_position_def Let_def split: option.splits)
  have stored: "positions (snd (close_position env now position_id why w)) position_id
      = Some pos'"
    by (simp add: run split: option.splits)
  have again: "close_position env' now' position_id why'
        (snd (close_position env now position_id why w))
      = ((case lookup_fault env' of None \<Rightarrow> AlreadyClosed | Some err \<Rightarrow> CloseError err),
         snd (close_position env now position_id why w))"
    by (rule close_position_closed_noop [OF stored closed])
  have first: "fst (close_position env now position_id why w)
        = (case enqueue_fault env of
             None \<Rightarrow> CloseSuccess position_id why order_id
           | Some err \<Rightarrow> CloseError err)"
    "exchange_orders (snd (close_position env now position_id why w))
        = exchange_orders w @
            [(order_id, MarketOrder (Position.symbol pos) exit_side (quantity pos))]"
    "trades (snd (close_position env now position_id why w))
        = trades w @ [(Suc (trade_sequence w), new_trade)]"
    by (simp_all add: run split: option.splits)
  show ?thesis
    unfolding Let_def
    using stored again first
    by (simp add: pos'_def new_trade_def exit_side_def)
qed

theorem close_position_twice_witness:
  "(let first = close_position (accepting 9001) 1000 7 ''STOP_LOSS'' one_open_long;
        second = close_position (accepting 9002) 2000 7 ''STOP_LOSS'' (snd first)
    in fst first = CloseSuccess 7 ''STOP_LOSS'' 9001
       \<and> exchange_orders (snd first) = [(9001, MarketOrder ''BTCUSDT'' SELL 1)]
       \<and> length (trades (snd first)) = 3
       \<and> fst second = AlreadyClosed
       \<and> exchange_orders (snd second) = [(9001, MarketOrder ''BTCUSDT'' SELL 1)]
       \<and> length (trades (snd second)) = 3)"
proof -
  have p: "positions one_open_long 7 = Some fresh_long"
    by (simp add: one_open_long_def)
  have s: "Position.status fresh_long = OPEN"
    by (simp add: fresh_long_def)
  have fits: "Position_fits fresh_long"
    by (simp add: fresh_long_def Position_fits_def fits_column_def fits_optional_def)
  have why: "length ''STOP_LOSS'' \<le> 50"
    by simp
  have env: "lookup_fault (accepting 9001) = None" "response (accepting 9001) = Inr 9001"
    "insert_fault (accepting 9001) = None" "save_fault (accepting 9001) = None"
    "enqueue_fault (accepting 9001) = None" "lookup_fault (accepting 9002) = None"
    by (simp_all add: accepting_def)
  have f: "9001 \<notin> set (map (binance_order_id \<circ> snd) (trades one_open_long))"
    by (simp add: one_open_long_def)
  have d: "exchange_orders one_open_long = []" "length (trades one_open_long) = 2"
    "Position.symbol fresh_long = ''BTCUSDT''" "Position.side fresh_long = BUY"
    "quantity fresh_long = 1"
    by (simp_all add: one_open_long_def fresh_long_def)
  from close_position_twice [OF p s fits why env(1,2,3,4) f,
      where now = 1000 and env' = "accepting 9002" and now' = 2000 and why' = "''STOP_LOSS''"]
  show ?thesis
    by (simp add: Let_def d env)
qed

end
